theory Spec2Isabelle
  imports Main "HOL-Library.Word"
begin

section \<open>JavaScript values as server.js sees them\<close>

text \<open>
  A JavaScript string is a sequence of UTF-16 code units; \<open>length\<close>, \<open>trim\<close>, the
  regular expressions (none has the \<open>u\<close> flag) and \<open>replace\<close> all work on code units.
  \<open>lit\<close> turns an ASCII literal of the source into its code units; text outside ASCII
  (the Hebrew labels and titles) is written as the list of its code units.
\<close>

type_synonym jsstring = "16 word list"

definition lit :: "string \<Rightarrow> jsstring" where
  "lit s = map of_char s"

text \<open>
  The values \<open>JSON.parse\<close> produces. A number is carried by the text that
  \<open>Number.prototype.toString\<close> gives for it (\<open>5\<close>, \<open>1.5\<close>, \<open>1e+21\<close>): the handler looks at a
  number only through \<open>String(v)\<close>, through its truthiness (false exactly for \<open>0\<close> and
  \<open>-0\<close>, both rendered \<open>0\<close>; \<open>NaN\<close> is not JSON) and through method lookups that fail.
  An object is the list of its members in the order of the text. \<open>undefined\<close> (an absent
  property) is \<open>None\<close> of \<open>jsval\<close>.
\<close>

datatype json =
    JNull
  | JBool bool
  | JNum jsstring
  | JStr jsstring
  | JArr "json list"
  | JObj "(jsstring \<times> json) list"

type_synonym jsval = "json option"

datatype js_error = TypeError

text \<open>Property lookup in an object built from a literal or by \<open>JSON.parse\<close>: of two members
  with the same key the later one stays. The keys server.js reads (\<open>name\<close>, \<open>phone\<close>,
  \<open>caseType\<close>, \<open>email\<close>, \<open>message\<close>, \<open>lang\<close>, the route paths, \<open>he\<close>, \<open>en\<close>) are on no
  prototype, so a key that is not an own property reads as \<open>undefined\<close>.\<close>

definition js_get :: "(jsstring \<times> 'a) list \<Rightarrow> jsstring \<Rightarrow> 'a option" where
  "js_get kvs k = map_of (rev kvs) k"

text \<open>\<open>const { name, ... } = req.body || {}\<close>: \<open>req.body\<close> is what \<open>express.json()\<close> left there
  (absent when no JSON body was parsed). Only an object has the properties read here; an
  array, and the empty object standing in for a falsy body, have none of them.\<close>

definition destructure :: "jsval \<Rightarrow> jsstring \<Rightarrow> jsval" where
  "destructure body k = (case body of Some (JObj kvs) \<Rightarrow> js_get kvs k | _ \<Rightarrow> None)"

text \<open>\<open>req.body[field]\<close> (no \<open>|| {}\<close> here): reading a property of \<open>undefined\<close> or \<open>null\<close>
  throws.\<close>

definition req_body_index :: "jsval \<Rightarrow> jsstring \<Rightarrow> js_error + jsval" where
  "req_body_index body k =
     (case body of
        None \<Rightarrow> Inl TypeError
      | Some JNull \<Rightarrow> Inl TypeError
      | Some (JObj kvs) \<Rightarrow> Inr (js_get kvs k)
      | Some _ \<Rightarrow> Inr None)"

text \<open>ToBoolean.\<close>

fun js_truthy :: "jsval \<Rightarrow> bool" where
  "js_truthy None = False"
| "js_truthy (Some JNull) = False"
| "js_truthy (Some (JBool b)) = b"
| "js_truthy (Some (JNum s)) = (s \<noteq> lit ''0'')"
| "js_truthy (Some (JStr s)) = (s \<noteq> [])"
| "js_truthy (Some (JArr xs)) = True"
| "js_truthy (Some (JObj kvs)) = True"

text \<open>
  \<open>String(v)\<close>, that is ToString. An array is joined with commas, \<open>null\<close> elements giving
  the empty string (\<open>Array.prototype.join\<close>). An object goes through OrdinaryToPrimitive:
  \<open>Object.prototype.toString\<close> gives \<open>[object Object]\<close>, unless the object has an own member
  \<open>toString\<close>: a JSON value is never callable, so that method is skipped, \<open>valueOf\<close> (own and
  not callable, or inherited and returning the object) gives no primitive either, and the
  conversion throws a TypeError.
\<close>

fun json_to_string :: "json \<Rightarrow> js_error + jsstring"
  and json_join :: "json list \<Rightarrow> js_error + jsstring" where
  "json_to_string JNull = Inr (lit ''null'')"
| "json_to_string (JBool b) = Inr (if b then lit ''true'' else lit ''false'')"
| "json_to_string (JNum s) = Inr s"
| "json_to_string (JStr s) = Inr s"
| "json_to_string (JArr xs) = json_join xs"
| "json_to_string (JObj kvs) =
     (if lit ''toString'' \<in> fst ` set kvs then Inl TypeError
      else Inr (lit ''[object Object]''))"
| "json_join [] = Inr []"
| "json_join (x # xs) =
     (case (if x = JNull then Inr [] else json_to_string x) of
        Inl e \<Rightarrow> Inl e
      | Inr s \<Rightarrow>
          if xs = [] then Inr s
          else (case json_join xs of Inl e \<Rightarrow> Inl e | Inr t \<Rightarrow> Inr (s @ lit '','' @ t)))"

definition js_String :: "jsval \<Rightarrow> js_error + jsstring" where
  "js_String v = (case v of None \<Rightarrow> Inr (lit ''undefined'') | Some j \<Rightarrow> json_to_string j)"

text \<open>WhiteSpace and LineTerminator code units: what \<open>trim\<close> strips and \<open>\s\<close> matches.\<close>

definition is_space :: "16 word \<Rightarrow> bool" where
  "is_space c \<longleftrightarrow>
     c \<in> {0x09, 0x0A, 0x0B, 0x0C, 0x0D, 0x20, 0xA0, 0x1680, 0x2028, 0x2029, 0x202F,
          0x205F, 0x3000, 0xFEFF}
     \<or> (0x2000 \<le> c \<and> c \<le> 0x200A)"

definition trim :: "jsstring \<Rightarrow> jsstring" where
  "trim s = rev (dropWhile is_space (rev (dropWhile is_space s)))"

text \<open>\<open>v.trim()\<close>: only a string has the method. On a number, a boolean or an array the
  lookup gives \<open>undefined\<close>, on an object at best a JSON value, and calling either throws;
  on \<open>undefined\<close> and \<open>null\<close> the lookup itself throws.\<close>

definition call_trim :: "jsval \<Rightarrow> js_error + jsstring" where
  "call_trim v = (case v of Some (JStr s) \<Rightarrow> Inr (trim s) | _ \<Rightarrow> Inl TypeError)"

text \<open>\<open>str.replace(/c/g, rep)\<close> for a one-unit pattern and a replacement without \<open>$\<close>.\<close>

definition replace_all_unit :: "16 word \<Rightarrow> jsstring \<Rightarrow> jsstring \<Rightarrow> jsstring" where
  "replace_all_unit c rep s = concat (map (\<lambda>x. if x = c then rep else [x]) s)"

text \<open>The decimal text of a number in a template literal, for the naturals used as
  limits.\<close>

fun dec :: "nat \<Rightarrow> jsstring" where
  "dec n = (if n < 10 then [48 + of_nat n] else dec (n div 10) @ [48 + of_nat (n mod 10)])"

declare dec.simps [simp del]

section \<open>The HTML-escape helper\<close>

definition esc_string :: "jsstring \<Rightarrow> jsstring" where
  "esc_string s =
     replace_all_unit 0x22 (lit ''&quot;'')
       (replace_all_unit 0x3E (lit ''&gt;'')
         (replace_all_unit 0x3C (lit ''&lt;'')
           (replace_all_unit 0x26 (lit ''&amp;'') s)))"

definition esc :: "jsval \<Rightarrow> js_error + jsstring" where
  "esc str = (case js_String str of Inl e \<Rightarrow> Inl e | Inr s \<Rightarrow> Inr (esc_string s))"

section \<open>The contact form endpoint\<close>

subsection \<open>What the handler reads and writes\<close>

record process_env =
  SMTP_USER :: "jsstring option"
  SMTP_PASS :: "jsstring option"

record mail =
  mail_from :: jsstring
  mail_to :: jsstring
  subject :: jsstring
  html :: jsstring

text \<open>How \<open>transporter.sendMail\<close> settles: the promise resolves, or rejects with an error
  whose \<open>message\<close> is kept.\<close>

datatype send_outcome = Delivered | Rejected jsstring

record transport_options =
  service :: jsstring
  auth_user :: jsstring
  auth_pass :: jsstring

type_synonym transporter = "mail \<Rightarrow> send_outcome"

text \<open>The JSON body of a response; \<open>res.json\<close> without \<open>res.status\<close> answers 200.\<close>

record response =
  status :: nat
  ok :: bool
  error :: "jsstring option"
  fields' :: "jsstring list option"

datatype effect =
    ConsoleWarn jsstring
  | ConsoleError jsstring jsstring
  | SendMail mail

text \<open>The handler is \<open>async\<close> and has a \<open>try\<close> only around \<open>sendMail\<close>: an exception anywhere
  else leaves it without a response having been written.\<close>

datatype outcome = Responded response | Uncaught js_error

definition and_then :: "js_error + 'a \<Rightarrow> ('a \<Rightarrow> js_error + 'b) \<Rightarrow> js_error + 'b" where
  "and_then x f = (case x of Inl e \<Rightarrow> Inl e | Inr v \<Rightarrow> f v)"

text \<open>\<open>a || b\<close> on an environment variable: absent and empty are both falsy.\<close>

definition or_default :: "jsstring option \<Rightarrow> jsstring \<Rightarrow> jsstring" where
  "or_default v d = (case v of None \<Rightarrow> d | Some s \<Rightarrow> if s = [] then d else s)"

text \<open>\<open>const transporter = process.env.SMTP_PASS ? nodemailer.createTransport({...}) : null\<close>,
  evaluated once when the module is loaded. \<open>createTransport\<close> is nodemailer's.\<close>

definition make_transporter ::
  "(transport_options \<Rightarrow> transporter) \<Rightarrow> process_env \<Rightarrow> transporter option" where
  "make_transporter createTransport env =
     (case SMTP_PASS env of
        None \<Rightarrow> None
      | Some pass \<Rightarrow>
          if pass = [] then None
          else Some (createTransport
                 \<lparr>service = lit ''gmail'',
                  auth_user = or_default (SMTP_USER env) (lit ''pardooren@gmail.com''),
                  auth_pass = pass\<rparr>))"

subsection \<open>Validation\<close>

text \<open>\<open>v == null || String(v).trim() === ''\<close>\<close>

definition is_missing :: "jsval \<Rightarrow> js_error + bool" where
  "is_missing v =
     (case v of
        None \<Rightarrow> Inr True
      | Some JNull \<Rightarrow> Inr True
      | Some j \<Rightarrow> and_then (js_String (Some j)) (\<lambda>s. Inr (trim s = [])))"

text \<open>\<open>Object.entries(required).filter(...).map(([k]) => k)\<close>: the entries are tested
  in order, and an exception in the test ends the whole expression.\<close>

fun missing_fields :: "(jsstring \<times> jsval) list \<Rightarrow> js_error + jsstring list" where
  "missing_fields [] = Inr []"
| "missing_fields ((k, v) # rest) =
     and_then (is_missing v) (\<lambda>b.
       and_then (missing_fields rest) (\<lambda>ks. Inr (if b then k # ks else ks)))"

definition limits :: "(jsstring \<times> nat) list" where
  "limits = [(lit ''name'', 200), (lit ''phone'', 30), (lit ''caseType'', 100),
             (lit ''email'', 254), (lit ''message'', 5000)]"

definition too_long_response :: "jsstring \<Rightarrow> nat \<Rightarrow> response" where
  "too_long_response field max' =
     \<lparr>status = 400, ok = False,
      error = Some (field @ lit '' exceeds maximum length of '' @ dec max'),
      fields' = None\<rparr>"

text \<open>The loop over \<open>Object.entries(limits)\<close>; \<open>Some r\<close> is the early \<open>return\<close>.
  The test is \<open>req.body[field] && String(req.body[field]).length > max\<close>.\<close>

fun length_stage :: "jsval \<Rightarrow> (jsstring \<times> nat) list \<Rightarrow> js_error + response option" where
  "length_stage body [] = Inr None"
| "length_stage body ((field, max') # rest) =
     and_then (req_body_index body field) (\<lambda>v.
       if js_truthy v then
         and_then (js_String v) (\<lambda>s.
           if length s > max' then Inr (Some (too_long_response field max'))
           else length_stage body rest)
       else length_stage body rest)"

text \<open>\<open>/^[\d\s\-+().]+$/\<close>\<close>

definition phone_class :: "16 word \<Rightarrow> bool" where
  "phone_class c \<longleftrightarrow>
     (0x30 \<le> c \<and> c \<le> 0x39) \<or> is_space c \<or> c \<in> {0x2D, 0x2B, 0x28, 0x29, 0x2E}"

definition phone_re :: "jsstring \<Rightarrow> bool" where
  "phone_re s \<longleftrightarrow> s \<noteq> [] \<and> list_all phone_class s"

text \<open>\<open>/^[^\s@]+@[^\s@]+\.[^\s@]+$/\<close>. The first run cannot cross an \<open>@\<close>, so it is the
  longest prefix free of spaces and \<open>@\<close>, and an \<open>@\<close> must follow it. What comes after
  must be free of spaces and \<open>@\<close> up to the end, and one of its dots must have at least
  one unit on each side.\<close>

definition email_class :: "16 word \<Rightarrow> bool" where
  "email_class c \<longleftrightarrow> \<not> is_space c \<and> c \<noteq> 0x40"

definition email_re :: "jsstring \<Rightarrow> bool" where
  "email_re s \<longleftrightarrow>
     takeWhile email_class s \<noteq> [] \<and>
     (case dropWhile email_class s of
        [] \<Rightarrow> False
      | c # t \<Rightarrow> c = 0x40 \<and> list_all email_class t \<and> 0x2E \<in> set (butlast (tl t)))"

text \<open>\<open>re.test(v)\<close> converts its argument with ToString first.\<close>

definition js_test :: "(jsstring \<Rightarrow> bool) \<Rightarrow> jsval \<Rightarrow> js_error + bool" where
  "js_test re v = and_then (js_String v) (\<lambda>s. Inr (re s))"

text \<open>\<open>email && !re.test(email.trim())\<close>: \<open>Inr True\<close> when the request is to be refused.\<close>

definition email_invalid :: "jsval \<Rightarrow> js_error + bool" where
  "email_invalid email =
     (if js_truthy email
      then and_then (call_trim email) (\<lambda>s. and_then (js_test email_re (Some (JStr s))) (\<lambda>b. Inr (\<not> b)))
      else Inr False)"

subsection \<open>Building and sending the mail\<close>

definition mail_subject :: "bool \<Rightarrow> jsstring \<Rightarrow> jsstring \<Rightarrow> jsstring" where
  "mail_subject isHe safeName safeCaseType =
     (if isHe
      then [0x5E4, 0x5E0, 0x5D9, 0x5D9, 0x5D4, 0x20, 0x5D7, 0x5D3, 0x5E9, 0x5D4] @ lit '': '' @
           safeName @ lit '' '' @ [0x2013] @ lit '' '' @ safeCaseType
      else lit ''New Contact: '' @ safeName @ lit '' '' @ [0x2013] @ lit '' '' @ safeCaseType)"

definition mail_html ::
  "bool \<Rightarrow> jsstring \<Rightarrow> jsstring \<Rightarrow> jsstring \<Rightarrow> jsstring \<Rightarrow> jsstring \<Rightarrow> jsstring" where
  \<open>mail_html isHe safeName safePhone safeCaseType safeEmail safeMessage =
     lit ''\<newline>'' @ lit ''        <div dir="'' @ (if isHe then lit ''rtl'' else lit ''ltr'') @
     lit ''" style="font-family:sans-serif;max-width:600px;margin:0 auto">\<newline>'' @
     lit ''            <h2 style="color:#835e21">'' @
     (if isHe
      then [0x5E4, 0x5E0, 0x5D9, 0x5D9, 0x5D4, 0x20, 0x5D7, 0x5D3, 0x5E9, 0x5D4, 0x20, 0x5DE,
            0x5D0, 0x5EA, 0x5E8, 0x20, 0x5D0, 0x5DC, 0x5D5, 0x5DF, 0x20, 0x5E4, 0x5E8, 0x5D3,
            0x5D5]
      else lit ''New contact from Alon Pardo website'') @
     lit ''</h2>\<newline>'' @
     lit ''            <table style="width:100%;border-collapse:collapse">\<newline>'' @
     lit ''                <tr><td style="padding:8px;font-weight:bold;border-bottom:1px solid #eee;width:30%">'' @
     (if isHe then [0x5E9, 0x5DD] else lit ''Name'') @
     lit ''</td><td style="padding:8px;border-bottom:1px solid #eee">'' @ safeName @
     lit ''</td></tr>\<newline>'' @
     lit ''                <tr><td style="padding:8px;font-weight:bold;border-bottom:1px solid #eee">'' @
     (if isHe then [0x5D8, 0x5DC, 0x5E4, 0x5D5, 0x5DF] else lit ''Phone'') @
     lit ''</td><td style="padding:8px;border-bottom:1px solid #eee">'' @ safePhone @
     lit ''</td></tr>\<newline>'' @
     lit ''                <tr><td style="padding:8px;font-weight:bold;border-bottom:1px solid #eee">'' @
     (if isHe then [0x5E1, 0x5D5, 0x5D2, 0x20, 0x5D4, 0x5EA, 0x5D9, 0x5E7] else lit ''Case Type'') @
     lit ''</td><td style="padding:8px;border-bottom:1px solid #eee">'' @ safeCaseType @
     lit ''</td></tr>\<newline>'' @ lit ''                '' @
     (if safeEmail \<noteq> []
      then lit ''<tr><td style="padding:8px;font-weight:bold;border-bottom:1px solid #eee">'' @
           (if isHe then [0x5D0, 0x5D9, 0x5DE, 0x5D9, 0x5D9, 0x5DC] else lit ''Email'') @
           lit ''</td><td style="padding:8px;border-bottom:1px solid #eee">'' @ safeEmail @
           lit ''</td></tr>''
      else []) @
     lit ''\<newline>'' @
     lit ''                <tr><td style="padding:8px;font-weight:bold;border-bottom:1px solid #eee;vertical-align:top">'' @
     (if isHe then [0x5E4, 0x5E8, 0x5D8, 0x5D9, 0x5DD] else lit ''Message'') @
     lit ''</td><td style="padding:8px;border-bottom:1px solid #eee">'' @ safeMessage @
     lit ''</td></tr>\<newline>'' @ lit ''            </table>\<newline>'' @ lit ''        </div>''\<close>

text \<open>\<open>message ?? ''\<close>\<close>

definition nullish_or_empty :: "jsval \<Rightarrow> jsval" where
  "nullish_or_empty v = (case v of None \<Rightarrow> Some (JStr []) | Some JNull \<Rightarrow> Some (JStr []) | _ \<Rightarrow> v)"

text \<open>Lines 134 to 163: the escaped fields in the order the source computes them, then
  the message handed to \<open>sendMail\<close>.\<close>

definition build_mail ::
  "process_env \<Rightarrow> jsval \<Rightarrow> jsval \<Rightarrow> jsval \<Rightarrow> jsval \<Rightarrow> jsval \<Rightarrow> jsval \<Rightarrow> js_error + mail" where
  \<open>build_mail env name phone caseType email message lang =
     and_then (call_trim name) (\<lambda>n. and_then (esc (Some (JStr n))) (\<lambda>safeName.
     and_then (call_trim phone) (\<lambda>p. and_then (esc (Some (JStr p))) (\<lambda>safePhone.
     and_then (call_trim caseType) (\<lambda>c. and_then (esc (Some (JStr c))) (\<lambda>safeCaseType.
     and_then (if js_truthy email
               then and_then (call_trim email) (\<lambda>e. esc (Some (JStr e)))
               else Inr []) (\<lambda>safeEmail.
     and_then (call_trim (nullish_or_empty message)) (\<lambda>m. and_then (esc (Some (JStr m))) (\<lambda>em.
       let safeMessage = replace_all_unit 0x0A (lit ''<br>'') em;
           isHe = (lang = Some (JStr (lit ''he'')))
       in Inr \<lparr>mail_from = lit ''"Alon Pardo Website" <'' @
                    or_default (SMTP_USER env) (lit ''pardooren@gmail.com'') @ lit ''>'',
                mail_to = lit ''pardooren@gmail.com'',
                subject = mail_subject isHe safeName safeCaseType,
                html = mail_html isHe safeName safePhone safeCaseType safeEmail
                         safeMessage\<rparr>)))))))))\<close>

subsection \<open>The handler\<close>

definition error_response :: "nat \<Rightarrow> jsstring \<Rightarrow> response" where
  "error_response code msg = \<lparr>status = code, ok = False, error = Some msg, fields' = None\<rparr>"

definition ok_response :: response where
  "ok_response = \<lparr>status = 200, ok = True, error = None, fields' = None\<rparr>"

text \<open>Lines 129 to 168, reached once the four checks have passed: the transporter
  test, the mail, and the one \<open>await transporter.sendMail(...)\<close> inside \<open>try\<close>. The
  result is what the handler did, in order, and how it ended.\<close>

definition dispatch ::
  "transporter option \<Rightarrow> process_env \<Rightarrow> jsval \<Rightarrow> jsval \<Rightarrow> jsval \<Rightarrow> jsval \<Rightarrow> jsval \<Rightarrow> jsval
     \<Rightarrow> effect list \<times> outcome" where
  "dispatch transporter env name phone caseType email message lang =
     (case transporter of
        None \<Rightarrow>
          ([ConsoleWarn (lit ''SMTP_PASS not configured '' @ [0x2013] @ lit '' email skipped'')],
           Responded (error_response 503 (lit ''Email not configured'')))
      | Some sendMail \<Rightarrow>
          (case build_mail env name phone caseType email message lang of
             Inl e \<Rightarrow> ([], Uncaught e)
           | Inr m \<Rightarrow>
               (case sendMail m of
                  Delivered \<Rightarrow> ([SendMail m], Responded ok_response)
                | Rejected msg \<Rightarrow>
                    ([SendMail m, ConsoleError (lit ''Email send error:'') msg],
                     Responded (error_response 500 (lit ''Failed to send email''))))))"

text \<open>\<open>app.post('/api/contact', contactLimiter, async (req, res) => ...)\<close>, after the
  rate limiter has let the request through: lines 101 to 127, each check returning
  early, then the dispatch.\<close>

definition contact :: "transporter option \<Rightarrow> process_env \<Rightarrow> jsval \<Rightarrow> effect list \<times> outcome" where
  "contact transporter env body =
     (let name = destructure body (lit ''name'');
          phone = destructure body (lit ''phone'');
          caseType = destructure body (lit ''caseType'');
          email = destructure body (lit ''email'');
          message = destructure body (lit ''message'');
          lang = destructure body (lit ''lang'');
          required = [(lit ''name'', name), (lit ''phone'', phone), (lit ''caseType'', caseType)]
      in (case missing_fields required of
            Inl e \<Rightarrow> ([], Uncaught e)
          | Inr missing \<Rightarrow>
              if missing \<noteq> [] then
                ([], Responded \<lparr>status = 400, ok = False,
                       error = Some (lit ''Missing required fields''),
                       fields' = Some missing\<rparr>)
              else
                (case length_stage body limits of
                   Inl e \<Rightarrow> ([], Uncaught e)
                 | Inr (Some r) \<Rightarrow> ([], Responded r)
                 | Inr None \<Rightarrow>
                     (case js_test phone_re phone of
                        Inl e \<Rightarrow> ([], Uncaught e)
                      | Inr matches \<Rightarrow>
                          if \<not> matches then
                            ([], Responded (error_response 400 (lit ''Invalid phone format'')))
                          else
                            (case email_invalid email of
                               Inl e \<Rightarrow> ([], Uncaught e)
                             | Inr bad \<Rightarrow>
                                 if bad then
                                   ([], Responded
                                          (error_response 400 (lit ''Invalid email format'')))
                                 else
                                   dispatch transporter env name phone caseType email
                                     message lang)))))"

section \<open>Pages with server-side SEO injection\<close>

subsection \<open>String search and replacement\<close>

definition starts_with :: "jsstring \<Rightarrow> jsstring \<Rightarrow> bool" where
  "starts_with s p \<longleftrightarrow> take (length p) s = p"

text \<open>A pattern is given by its matcher at the start of a string: the length of the
  match there, if there is one. \<open>search\<close> finds the leftmost position where the pattern
  matches, as \<open>indexOf\<close> and a regular expression without the \<open>g\<close> flag do.\<close>

type_synonym pattern = "jsstring \<Rightarrow> nat option"

definition string_pattern :: "jsstring \<Rightarrow> pattern" where
  "string_pattern p s = (if starts_with s p then Some (length p) else None)"

text \<open>\<open>/L[^>]*>/\<close> for a literal \<open>L\<close>: the class cannot take a \<open>>\<close>, so the match runs to the
  first \<open>>\<close> after the literal, and there is none when no \<open>>\<close> follows.\<close>

definition tag_pattern :: "jsstring \<Rightarrow> pattern" where
  "tag_pattern l s =
     (if starts_with s l then
        (let rest = drop (length l) s; attrs = takeWhile (\<lambda>c. c \<noteq> 0x3E) rest
         in if length attrs < length rest then Some (length l + length attrs + 1) else None)
      else None)"

text \<open>\<open>/<title[^>]*>[^<]*<\/title>/\<close>: after the opening tag the text runs to the first
  \<open><\<close>, where \<open></title>\<close> must stand.\<close>

definition title_pattern :: pattern where
  \<open>title_pattern s =
     (case tag_pattern (lit ''<title'') s of
        None \<Rightarrow> None
      | Some n \<Rightarrow>
          (let rest = drop n s; inner = takeWhile (\<lambda>c. c \<noteq> 0x3C) rest
           in if starts_with (drop (length inner) rest) (lit ''</title>'')
              then Some (n + length inner + 8) else None))\<close>

fun search :: "pattern \<Rightarrow> jsstring \<Rightarrow> (nat \<times> nat) option" where
  "search m [] = (case m [] of None \<Rightarrow> None | Some n \<Rightarrow> Some (0, n))"
| "search m (c # s) =
     (case m (c # s) of
        Some n \<Rightarrow> Some (0, n)
      | None \<Rightarrow> (case search m s of None \<Rightarrow> None | Some (i, n) \<Rightarrow> Some (Suc i, n)))"

definition includes_str :: "jsstring \<Rightarrow> jsstring \<Rightarrow> bool" where
  "includes_str s p \<longleftrightarrow> search (string_pattern p) s \<noteq> None"

text \<open>GetSubstitution for a pattern without capture groups: in the replacement text
  \<open>$$\<close> stands for \<open>$\<close>, \<open>$&\<close> for the match, \<open>$`\<close> for what precedes it and \<open>$'\<close> for what
  follows it; a \<open>$\<close> before anything else stays.\<close>

fun get_substitution :: "jsstring \<Rightarrow> jsstring \<Rightarrow> jsstring \<Rightarrow> jsstring \<Rightarrow> jsstring" where
  "get_substitution matched preceding following (c # d # r) =
     (if c = 0x24 \<and> d = 0x24 then 0x24 # get_substitution matched preceding following r
      else if c = 0x24 \<and> d = 0x26 then matched @ get_substitution matched preceding following r
      else if c = 0x24 \<and> d = 0x60 then preceding @ get_substitution matched preceding following r
      else if c = 0x24 \<and> d = 0x27 then following @ get_substitution matched preceding following r
      else c # get_substitution matched preceding following (d # r))"
| "get_substitution matched preceding following r = r"

text \<open>\<open>s.replace(pattern, rep)\<close>, first match only; without a match the string stays.\<close>

definition replace_first :: "pattern \<Rightarrow> jsstring \<Rightarrow> jsstring \<Rightarrow> jsstring" where
  "replace_first m rep s =
     (case search m s of
        None \<Rightarrow> s
      | Some (i, n) \<Rightarrow>
          take i s @ get_substitution (take n (drop i s)) (take i s) (drop (i + n) s) rep
            @ drop (i + n) s)"

subsection \<open>JSON.stringify on strings\<close>

definition hex_digit :: "nat \<Rightarrow> 16 word" where
  "hex_digit n = (if n < 10 then 48 + of_nat n else 87 + of_nat n)"

definition unicode_escape :: "16 word \<Rightarrow> jsstring" where
  "unicode_escape c =
     [0x5C, 0x75, hex_digit (unat c div 4096), hex_digit (unat c div 256 mod 16),
      hex_digit (unat c div 16 mod 16), hex_digit (unat c mod 16)]"

text \<open>One code unit that is not half of a surrogate pair.\<close>

definition quote_unit :: "16 word \<Rightarrow> jsstring" where
  "quote_unit c =
     (if c = 0x08 then [0x5C, 0x62]
      else if c = 0x09 then [0x5C, 0x74]
      else if c = 0x0A then [0x5C, 0x6E]
      else if c = 0x0C then [0x5C, 0x66]
      else if c = 0x0D then [0x5C, 0x72]
      else if c = 0x22 then [0x5C, 0x22]
      else if c = 0x5C then [0x5C, 0x5C]
      else if c < 0x20 \<or> (0xD800 \<le> c \<and> c \<le> 0xDFFF) then unicode_escape c
      else [c])"

fun quote_units :: "jsstring \<Rightarrow> jsstring" where
  "quote_units (c # d # r) =
     (if 0xD800 \<le> c \<and> c \<le> 0xDBFF \<and> 0xDC00 \<le> d \<and> d \<le> 0xDFFF
      then c # d # quote_units r
      else quote_unit c @ quote_units (d # r))"
| "quote_units [c] = quote_unit c"
| "quote_units [] = []"

definition json_quote :: "jsstring \<Rightarrow> jsstring" where
  "json_quote s = [0x22] @ quote_units s @ [0x22]"

subsection \<open>The metadata table and the routes\<close>

record meta =
  title :: jsstring
  desc :: jsstring

type_synonym meta_table = "(jsstring \<times> (jsstring \<times> meta) list) list"

definition routeMeta :: meta_table where
  \<open>routeMeta = [
   (lit ''/practice/criminal-lawyer'',
    [(lit ''he'',
      \<lparr>title = [0x5E2, 0x5D5, 0x5E8, 0x5DA, 0x20, 0x5D3, 0x5D9, 0x5DF, 0x20, 0x5E4, 0x5DC, 0x5D9,
          0x5DC, 0x5D9] @ lit '' | '' @ [0x5D0, 0x5DC, 0x5D5, 0x5DF, 0x20, 0x5E4, 0x5E8, 0x5D3,
          0x5D5],
       desc = [0x5E2, 0x5D5, 0x5E8, 0x5DA, 0x20, 0x5D3, 0x5D9, 0x5DF, 0x20, 0x5E4, 0x5DC, 0x5D9,
          0x5DC, 0x5D9] @ lit '' - '' @ [0x5D9, 0x5D9, 0x5E6, 0x5D5, 0x5D2, 0x20, 0x5D1, 0x5D7,
          0x5E7, 0x5D9, 0x5E8, 0x5D5, 0x5EA, 0x20, 0x5DE, 0x5E9, 0x5D8, 0x5E8, 0x5D4] @ lit '', ''
          @ [0x5DB, 0x5EA, 0x5D1, 0x5D9, 0x20, 0x5D0, 0x5D9, 0x5E9, 0x5D5, 0x5DD] @ lit '', '' @
          [0x5D3, 0x5D9, 0x5D5, 0x5E0, 0x5D9, 0x20, 0x5DE, 0x5E2, 0x5E6, 0x5E8, 0x20, 0x5D5,
          0x5E2, 0x5E8, 0x5E2, 0x5D5, 0x5E8, 0x5D9, 0x5DD] @ lit ''. '' @ [0x5D9, 0x5D9, 0x5E2,
          0x5D5, 0x5E5, 0x20, 0x5DE, 0x5E9, 0x5E4, 0x5D8, 0x5D9, 0x20, 0x5D9, 0x5E9, 0x5D9, 0x5E8,
          0x20, 0x5D5, 0x5DE, 0x5E7, 0x5E6, 0x5D5, 0x5E2, 0x5D9] @ lit ''.''\<rparr>),
     (lit ''en'',
      \<lparr>title = lit ''Criminal Defense Lawyer | Alon Pardo'',
       desc = lit
          ''Criminal defense lawyer - representation in police investigations, indictments, detention hearings and appeals.''\<rparr>)]),
   (lit ''/practice/traffic-lawyer'',
    [(lit ''he'',
      \<lparr>title = [0x5E2, 0x5D5, 0x5E8, 0x5DA, 0x20, 0x5D3, 0x5D9, 0x5DF, 0x20, 0x5EA, 0x5E2, 0x5D1,
          0x5D5, 0x5E8, 0x5D4] @ lit '' | '' @ [0x5D0, 0x5DC, 0x5D5, 0x5DF, 0x20, 0x5E4, 0x5E8,
          0x5D3, 0x5D5],
       desc = [0x5E2, 0x5D5, 0x5E8, 0x5DA, 0x20, 0x5D3, 0x5D9, 0x5DF, 0x20, 0x5EA, 0x5E2, 0x5D1,
          0x5D5, 0x5E8, 0x5D4] @ lit '' - '' @ [0x5D9, 0x5D9, 0x5E6, 0x5D5, 0x5D2, 0x20, 0x5D1,
          0x5E2, 0x5D1, 0x5D9, 0x5E8, 0x5D5, 0x5EA, 0x20, 0x5EA, 0x5E0, 0x5D5, 0x5E2, 0x5D4] @ lit
          '', '' @ [0x5E4, 0x5E1, 0x5D9, 0x5DC, 0x5EA, 0x20, 0x5E8, 0x5D9, 0x5E9, 0x5D9, 0x5D5,
          0x5DF] @ lit '', '' @ [0x5E0, 0x5D4, 0x5D9, 0x5D2, 0x5D4, 0x20, 0x5D1, 0x5E9, 0x5DB,
          0x5E8, 0x5D5, 0x5EA, 0x20, 0x5D5, 0x5EA, 0x5D0, 0x5D5, 0x5E0, 0x5D5, 0x5EA, 0x20, 0x5D3,
          0x5E8, 0x5DB, 0x5D9, 0x5DD] @ lit ''.''\<rparr>),
     (lit ''en'',
      \<lparr>title = lit ''Traffic Law Lawyer | Alon Pardo'',
       desc = lit
          ''Traffic law lawyer - representation for traffic offenses, license suspension, DUI and road accidents.''\<rparr>)]),
   (lit ''/practice/administrative-lawyer'',
    [(lit ''he'',
      \<lparr>title = [0x5E2, 0x5D5, 0x5E8, 0x5DA, 0x20, 0x5D3, 0x5D9, 0x5DF, 0x20, 0x5DE, 0x5E0, 0x5D4,
          0x5DC, 0x5D9] @ lit '' | '' @ [0x5D0, 0x5DC, 0x5D5, 0x5DF, 0x20, 0x5E4, 0x5E8, 0x5D3,
          0x5D5],
       desc = [0x5E2, 0x5D5, 0x5E8, 0x5DA, 0x20, 0x5D3, 0x5D9, 0x5DF, 0x20, 0x5DE, 0x5E0, 0x5D4,
          0x5DC, 0x5D9] @ lit '' - '' @ [0x5E2, 0x5E8, 0x5E2, 0x5D5, 0x5E8, 0x5D9, 0x5DD, 0x20,
          0x5E2, 0x5DC, 0x20, 0x5D4, 0x5D7, 0x5DC, 0x5D8, 0x5D5, 0x5EA, 0x20, 0x5E8, 0x5E9, 0x5D5,
          0x5D9, 0x5D5, 0x5EA] @ lit '', '' @ [0x5D4, 0x5D9, 0x5EA, 0x5E8, 0x5D9, 0x5DD] @ lit
          '', '' @ [0x5E8, 0x5D9, 0x5E9, 0x5D5, 0x5D9, 0x20, 0x5D5, 0x5E1, 0x5DB, 0x5E1, 0x5D5,
          0x5DB, 0x5D9, 0x5DD, 0x20, 0x5DE, 0x5D5, 0x5E0, 0x5D9, 0x5E6, 0x5D9, 0x5E4, 0x5DC,
          0x5D9, 0x5D9, 0x5DD] @ lit ''.''\<rparr>),
     (lit ''en'',
      \<lparr>title = lit ''Administrative Law Lawyer | Alon Pardo'',
       desc = lit
          ''Administrative law lawyer - appeals against authority decisions, permits, licensing and municipal disputes.''\<rparr>)]),
   (lit ''/practice/employment-lawyer'',
    [(lit ''he'',
      \<lparr>title = [0x5E2, 0x5D5, 0x5E8, 0x5DA, 0x20, 0x5D3, 0x5D9, 0x5DF, 0x20, 0x5D3, 0x5D9, 0x5E0,
          0x5D9, 0x20, 0x5E2, 0x5D1, 0x5D5, 0x5D3, 0x5D4] @ lit '' | '' @ [0x5D0, 0x5DC, 0x5D5,
          0x5DF, 0x20, 0x5E4, 0x5E8, 0x5D3, 0x5D5],
       desc = [0x5E2, 0x5D5, 0x5E8, 0x5DA, 0x20, 0x5D3, 0x5D9, 0x5DF, 0x20, 0x5D3, 0x5D9, 0x5E0,
          0x5D9, 0x20, 0x5E2, 0x5D1, 0x5D5, 0x5D3, 0x5D4] @ lit '' - '' @ [0x5D9, 0x5D9, 0x5E6,
          0x5D5, 0x5D2, 0x20, 0x5E2, 0x5D5, 0x5D1, 0x5D3, 0x5D9, 0x5DD, 0x20, 0x5D5, 0x5DE, 0x5E2,
          0x5E1, 0x5D9, 0x5E7, 0x5D9, 0x5DD, 0x20, 0x5D1, 0x5E4, 0x5D9, 0x5D8, 0x5D5, 0x5E8,
          0x5D9, 0x5DF] @ lit '', '' @ [0x5E9, 0x5D9, 0x5DE, 0x5D5, 0x5E2, 0x5D9, 0x5DD] @ lit
          '', '' @ [0x5EA, 0x5D1, 0x5D9, 0x5E2, 0x5D5, 0x5EA, 0x20, 0x5E9, 0x5DB, 0x5E8, 0x20,
          0x5D5, 0x5E1, 0x5DB, 0x5E1, 0x5D5, 0x5DB, 0x5D9, 0x20, 0x5E2, 0x5D1, 0x5D5, 0x5D3,
          0x5D4] @ lit ''.''\<rparr>),
     (lit ''en'',
      \<lparr>title = lit ''Employment Law Lawyer | Alon Pardo'',
       desc = lit
          ''Employment law lawyer - representing employees and employers in termination, hearings, wage claims and disputes.''\<rparr>)]),
   (lit ''/practice/accessibility-lawyer'',
    [(lit ''he'',
      \<lparr>title = [0x5E2, 0x5D5, 0x5E8, 0x5DA, 0x20, 0x5D3, 0x5D9, 0x5DF, 0x20, 0x5E0, 0x5D2, 0x5D9,
          0x5E9, 0x5D5, 0x5EA] @ lit '' | '' @ [0x5D0, 0x5DC, 0x5D5, 0x5DF, 0x20, 0x5E4, 0x5E8,
          0x5D3, 0x5D5],
       desc = [0x5E2, 0x5D5, 0x5E8, 0x5DA, 0x20, 0x5D3, 0x5D9, 0x5DF, 0x20, 0x5E0, 0x5D2, 0x5D9,
          0x5E9, 0x5D5, 0x5EA] @ lit '' - '' @ [0x5D9, 0x5D9, 0x5E2, 0x5D5, 0x5E5] @ lit '', '' @
          [0x5E6, 0x5D9, 0x5D5, 0x5EA, 0x20, 0x5D5, 0x5EA, 0x5D1, 0x5D9, 0x5E2, 0x5D5, 0x5EA,
          0x20, 0x5E0, 0x5D2, 0x5D9, 0x5E9, 0x5D5, 0x5EA, 0x20, 0x5DC, 0x5E2, 0x5E1, 0x5E7, 0x5D9,
          0x5DD, 0x20, 0x5D5, 0x5D9, 0x5D7, 0x5D9, 0x5D3, 0x5D9, 0x5DD] @ lit ''. '' @ [0x5D4,
          0x5E0, 0x5D7, 0x5D9, 0x5D4, 0x20, 0x5DE, 0x5E2, 0x5E9, 0x5D9, 0x5EA, 0x20, 0x5D5, 0x5EA,
          0x5D9, 0x5E7, 0x5D5, 0x5DF] @ lit ''.''\<rparr>),
     (lit ''en'',
      \<lparr>title = lit ''Accessibility Law Lawyer | Alon Pardo'',
       desc = lit
          ''Accessibility law lawyer - compliance, claims and enforcement for businesses and individuals.''\<rparr>)]),
   (lit ''/privacy'',
    [(lit ''he'',
      \<lparr>title = [0x5DE, 0x5D3, 0x5D9, 0x5E0, 0x5D9, 0x5D5, 0x5EA, 0x20, 0x5E4, 0x5E8, 0x5D8, 0x5D9,
          0x5D5, 0x5EA] @ lit '' | '' @ [0x5D0, 0x5DC, 0x5D5, 0x5DF, 0x20, 0x5E4, 0x5E8, 0x5D3,
          0x5D5],
       desc = [0x5DE, 0x5D3, 0x5D9, 0x5E0, 0x5D9, 0x5D5, 0x5EA, 0x20, 0x5D4, 0x5E4, 0x5E8, 0x5D8,
          0x5D9, 0x5D5, 0x5EA, 0x20, 0x5E9, 0x5DC, 0x20, 0x5D0, 0x5EA, 0x5E8, 0x20, 0x5E2, 0x5D5]
          @ lit ''"'' @ [0x5D3, 0x20, 0x5D0, 0x5DC, 0x5D5, 0x5DF, 0x20, 0x5E4, 0x5E8, 0x5D3,
          0x5D5] @ lit '' - '' @ [0x5D0, 0x5D9, 0x5E1, 0x5D5, 0x5E3, 0x20, 0x5DE, 0x5D9, 0x5D3,
          0x5E2] @ lit '', '' @ [0x5E9, 0x5DE, 0x5D9, 0x5E8, 0x5D4] @ lit '', '' @ [0x5D0, 0x5D1,
          0x5D8, 0x5D7, 0x5D4, 0x20, 0x5D5, 0x5D6, 0x5DB, 0x5D5, 0x5D9, 0x5D5, 0x5EA, 0x5D9,
          0x5DA] @ lit ''.''\<rparr>),
     (lit ''en'',
      \<lparr>title = lit ''Privacy Policy | Alon Pardo'',
       desc = lit
          ''Privacy policy for Alon Pardo Attorney at Law - data collection, retention, security and your rights.''\<rparr>)]),
   (lit ''/terms'',
    [(lit ''he'',
      \<lparr>title = [0x5EA, 0x5E0, 0x5D0, 0x5D9, 0x20, 0x5E9, 0x5D9, 0x5E8, 0x5D5, 0x5EA] @ lit '' | '' @
          [0x5D0, 0x5DC, 0x5D5, 0x5DF, 0x20, 0x5E4, 0x5E8, 0x5D3, 0x5D5],
       desc = [0x5EA, 0x5E0, 0x5D0, 0x5D9, 0x20, 0x5D4, 0x5E9, 0x5D9, 0x5E8, 0x5D5, 0x5EA, 0x20,
          0x5E9, 0x5DC, 0x20, 0x5D0, 0x5EA, 0x5E8, 0x20, 0x5E2, 0x5D5] @ lit ''"'' @ [0x5D3, 0x20,
          0x5D0, 0x5DC, 0x5D5, 0x5DF, 0x20, 0x5E4, 0x5E8, 0x5D3, 0x5D5] @ lit '' - '' @ [0x5E9,
          0x5D9, 0x5DE, 0x5D5, 0x5E9, 0x20, 0x5D1, 0x5D0, 0x5EA, 0x5E8] @ lit '', '' @ [0x5D4,
          0x5D2, 0x5D1, 0x5DC, 0x5D5, 0x5EA, 0x20, 0x5D5, 0x5D3, 0x5D9, 0x5DF, 0x20, 0x5D7, 0x5DC]
          @ lit ''.''\<rparr>),
     (lit ''en'',
      \<lparr>title = lit ''Terms of Service | Alon Pardo'',
       desc = lit ''Terms of service for Alon Pardo Attorney at Law website.''\<rparr>)]),
   (lit ''/cookies'',
    [(lit ''he'',
      \<lparr>title = [0x5DE, 0x5D3, 0x5D9, 0x5E0, 0x5D9, 0x5D5, 0x5EA, 0x20, 0x5E2, 0x5D5, 0x5D2, 0x5D9,
          0x5D5, 0x5EA] @ lit '' | '' @ [0x5D0, 0x5DC, 0x5D5, 0x5DF, 0x20, 0x5E4, 0x5E8, 0x5D3,
          0x5D5],
       desc = [0x5DE, 0x5D3, 0x5D9, 0x5E0, 0x5D9, 0x5D5, 0x5EA, 0x20, 0x5D4, 0x5E2, 0x5D5, 0x5D2,
          0x5D9, 0x5D5, 0x5EA, 0x20, 0x5E9, 0x5DC, 0x20, 0x5D0, 0x5EA, 0x5E8, 0x20, 0x5E2, 0x5D5]
          @ lit ''"'' @ [0x5D3, 0x20, 0x5D0, 0x5DC, 0x5D5, 0x5DF, 0x20, 0x5E4, 0x5E8, 0x5D3,
          0x5D5] @ lit '' - '' @ [0x5E1, 0x5D5, 0x5D2, 0x5D9, 0x20, 0x5E2, 0x5D5, 0x5D2, 0x5D9,
          0x5D5, 0x5EA] @ lit '', '' @ [0x5E9, 0x5D9, 0x5DE, 0x5D5, 0x5E9, 0x20, 0x5D5, 0x5D4,
          0x5D2, 0x5D3, 0x5E8, 0x5D5, 0x5EA] @ lit ''.''\<rparr>),
     (lit ''en'',
      \<lparr>title = lit ''Cookie Policy | Alon Pardo'',
       desc = lit ''Cookie policy for Alon Pardo Attorney at Law website.''\<rparr>)]),
   (lit ''/disclaimer'',
    [(lit ''he'',
      \<lparr>title = [0x5D4, 0x5E6, 0x5D4, 0x5E8, 0x5D4, 0x20, 0x5DE, 0x5E9, 0x5E4, 0x5D8, 0x5D9, 0x5EA] @
          lit '' | '' @ [0x5D0, 0x5DC, 0x5D5, 0x5DF, 0x20, 0x5E4, 0x5E8, 0x5D3, 0x5D5],
       desc = [0x5D4, 0x5E6, 0x5D4, 0x5E8, 0x5D4, 0x20, 0x5DE, 0x5E9, 0x5E4, 0x5D8, 0x5D9, 0x5EA,
          0x20, 0x5E9, 0x5DC, 0x20, 0x5D0, 0x5EA, 0x5E8, 0x20, 0x5E2, 0x5D5] @ lit ''"'' @ [0x5D3,
          0x20, 0x5D0, 0x5DC, 0x5D5, 0x5DF, 0x20, 0x5E4, 0x5E8, 0x5D3, 0x5D5] @ lit '' - '' @
          [0x5D4, 0x5D2, 0x5D1, 0x5DC, 0x5D5, 0x5EA] @ lit '', '' @ [0x5D0, 0x5D7, 0x5E8, 0x5D9,
          0x5D5, 0x5EA, 0x20, 0x5D5, 0x5D3, 0x5D9, 0x5DF, 0x20, 0x5D7, 0x5DC] @ lit ''.''\<rparr>),
     (lit ''en'',
      \<lparr>title = lit ''Legal Disclaimer | Alon Pardo'',
       desc = lit ''Legal disclaimer for Alon Pardo Attorney at Law website.''\<rparr>)]),
   (lit ''/accessibility-statement'',
    [(lit ''he'',
      \<lparr>title = [0x5D4, 0x5E6, 0x5D4, 0x5E8, 0x5EA, 0x20, 0x5E0, 0x5D2, 0x5D9, 0x5E9, 0x5D5, 0x5EA] @
          lit '' | '' @ [0x5D0, 0x5DC, 0x5D5, 0x5DF, 0x20, 0x5E4, 0x5E8, 0x5D3, 0x5D5],
       desc = [0x5D4, 0x5E6, 0x5D4, 0x5E8, 0x5EA, 0x20, 0x5D4, 0x5E0, 0x5D2, 0x5D9, 0x5E9, 0x5D5,
          0x5EA, 0x20, 0x5E9, 0x5DC, 0x20, 0x5D0, 0x5EA, 0x5E8, 0x20, 0x5E2, 0x5D5] @ lit ''"'' @
          [0x5D3, 0x20, 0x5D0, 0x5DC, 0x5D5, 0x5DF, 0x20, 0x5E4, 0x5E8, 0x5D3, 0x5D5] @ lit
          '' - '' @ [0x5EA, 0x5E7, 0x5DF] @ lit '' WCAG 2.2 AA, '' @ [0x5EA, 0x5DB, 0x5D5, 0x5E0,
          0x5D5, 0x5EA, 0x20, 0x5E0, 0x5D2, 0x5D9, 0x5E9, 0x5D5, 0x5EA, 0x20, 0x5D5, 0x5D9, 0x5E6,
          0x5D9, 0x5E8, 0x5EA, 0x20, 0x5E7, 0x5E9, 0x5E8] @ lit ''.''\<rparr>),
     (lit ''en'',
      \<lparr>title = lit ''Accessibility Statement | Alon Pardo'',
       desc = lit
          ''Accessibility statement - WCAG 2.2 AA standard, accessibility features and contact information.''\<rparr>)])]\<close>

definition ogImage :: jsstring where
  "ogImage = lit ''https://images.unsplash.com/photo-1505664194779-8beaceb93744?auto=format&fit=crop&q=80&w=1200''"

definition expertiseRoutes :: "jsstring list" where
  "expertiseRoutes =
    [lit ''/practice/criminal-lawyer'',
     lit ''/practice/traffic-lawyer'',
     lit ''/practice/administrative-lawyer'',
     lit ''/practice/employment-lawyer'',
     lit ''/practice/accessibility-lawyer'',
     lit ''/privacy'',
     lit ''/terms'',
     lit ''/cookies'',
     lit ''/disclaimer'',
     lit ''/accessibility-statement'']"

subsection \<open>The route handler\<close>

text \<open>\<open>req.query.lang\<close> as the query-string parser leaves it: absent, a string, or an
  array or object when the parameter is repeated or written with brackets.\<close>

datatype qsval = QStr jsstring | QArr "qsval list" | QObj "(jsstring \<times> qsval) list"

text \<open>\<open>req.query.lang === 'en' ? 'en' : 'he'\<close>\<close>

definition page_lang :: "qsval option \<Rightarrow> jsstring" where
  "page_lang q = (if q = Some (QStr (lit ''en'')) then lit ''en'' else lit ''he'')"

text \<open>\<open>routeMeta[route]?.[lang] || routeMeta[route]?.he\<close>; an entry is an object, hence
  truthy, so the right operand is used exactly when the left one is \<open>undefined\<close>.\<close>

definition lookup_meta :: "meta_table \<Rightarrow> jsstring \<Rightarrow> jsstring \<Rightarrow> meta option" where
  "lookup_meta tbl route lang =
     (case js_get tbl route of
        None \<Rightarrow> None
      | Some entries \<Rightarrow>
          (case js_get entries lang of
             Some m \<Rightarrow> Some m
           | None \<Rightarrow> js_get entries (lit ''he'')))"

text \<open>\<open>lang === 'en' ? route + '?lang=en' : route\<close>\<close>

definition canonical_url :: "jsstring \<Rightarrow> jsstring \<Rightarrow> jsstring" where
  "canonical_url route lang = (if lang = lit ''en'' then route @ lit ''?lang=en'' else route)"

definition canonical_link :: "jsstring \<Rightarrow> jsstring" where
  \<open>canonical_link canonical =
     lit ''<link rel="canonical" id="canonical-link" href="'' @ canonical @ lit ''">''\<close>

text \<open>The seven chained \<open>replace\<close> calls on the cached template: the six that write the
  title and the description, then the one that writes the canonical link.\<close>

definition inject_title_desc :: "jsstring \<Rightarrow> meta \<Rightarrow> jsstring" where
  \<open>inject_title_desc template m =
     replace_first (tag_pattern (lit ''<meta name="twitter:description"''))
       (lit ''<meta name="twitter:description" id="twitter-description" content="'' @ desc m
          @ lit ''">'')
    (replace_first (tag_pattern (lit ''<meta name="twitter:title"''))
       (lit ''<meta name="twitter:title" id="twitter-title" content="'' @ title m @ lit ''">'')
    (replace_first (tag_pattern (lit ''<meta property="og:description"''))
       (lit ''<meta property="og:description" id="og-description" content="'' @ desc m
          @ lit ''">'')
    (replace_first (tag_pattern (lit ''<meta property="og:title"''))
       (lit ''<meta property="og:title" id="og-title" content="'' @ title m @ lit ''">'')
    (replace_first (tag_pattern (lit ''<meta name="description"''))
       (lit ''<meta name="description" id="meta-description" content="'' @ desc m @ lit ''">'')
    (replace_first title_pattern
       (lit ''<title id="page-title">'' @ title m @ lit ''</title>'')
       template)))))\<close>

definition inject_meta :: "jsstring \<Rightarrow> meta \<Rightarrow> jsstring \<Rightarrow> jsstring" where
  \<open>inject_meta template m canonical =
     replace_first (tag_pattern (lit ''<link rel="canonical"'')) (canonical_link canonical)
       (inject_title_desc template m)\<close>

definition hreflangBlock :: "jsstring \<Rightarrow> jsstring" where
  \<open>hreflangBlock route =
     lit ''<link rel="alternate" hreflang="he" href="'' @ route @ lit ''">\<newline>'' @
     lit ''    <link rel="alternate" hreflang="en" href="'' @ route @ lit ''?lang=en">\<newline>'' @
     lit ''    <link rel="alternate" hreflang="x-default" href="'' @ route @ lit ''">''\<close>

definition inject_hreflang :: "jsstring \<Rightarrow> jsstring \<Rightarrow> jsstring" where
  \<open>inject_hreflang route s =
     replace_first (string_pattern (lit ''<!-- Canonical & hreflang -->''))
       (lit ''<!-- Canonical & hreflang -->\<newline>'' @ lit ''    '' @ hreflangBlock route) s\<close>

definition inject_og_image :: "jsstring \<Rightarrow> jsstring" where
  \<open>inject_og_image s =
     (if \<not> includes_str s (lit ''og:image'') then
        replace_first (string_pattern (lit ''<!-- Twitter Card -->''))
          (lit ''<meta property="og:image" content="'' @ ogImage @ lit ''">\<newline>'' @
           lit ''    <meta property="og:image:width" content="1200">\<newline>'' @
           lit ''    <meta property="og:image:height" content="630">\<newline>'' @
           lit ''\<newline>'' @
           lit ''    <!-- Twitter Card -->'') s
      else s)\<close>

text \<open>\<open>meta.title.split('|')[0].trim()\<close>\<close>

definition service_name :: "meta \<Rightarrow> jsstring" where
  "service_name m = trim (takeWhile (\<lambda>c. c \<noteq> 0x7C) (title m))"

definition jsonLd :: "meta \<Rightarrow> jsstring \<Rightarrow> jsstring" where
  \<open>jsonLd m canonical =
     lit ''{"@context":"https://schema.org","@type":"LegalService","name":'' @
     json_quote (service_name m) @
     lit '',"description":'' @ json_quote (desc m) @
     lit '',"url":'' @ json_quote canonical @
     lit '',"provider":{"@type":"Person","name":"Alon Pardo","jobTitle":"Attorney at Law",'' @
     lit ''"telephone":"+972524203401"},"areaServed":{"@type":"Country","name":"Israel"},'' @
     lit ''"availableLanguage":["Hebrew","English"]}''\<close>

definition breadcrumb :: "meta \<Rightarrow> jsstring \<Rightarrow> jsstring \<Rightarrow> jsstring" where
  \<open>breadcrumb m lang canonical =
     lit ''{"@context":"https://schema.org","@type":"BreadcrumbList","itemListElement":['' @
     lit ''{"@type":"ListItem","position":1,"name":'' @
     json_quote (if lang = lit ''en'' then lit ''Home''
                 else [0x5D3, 0x5E3, 0x20, 0x5D4, 0x5D1, 0x5D9, 0x5EA]) @
     lit '',"item":"/"},{"@type":"ListItem","position":2,"name":'' @
     json_quote (service_name m) @
     lit '',"item":'' @ json_quote canonical @ lit ''}]}''\<close>

definition inject_json_ld :: "jsstring \<Rightarrow> meta \<Rightarrow> jsstring \<Rightarrow> jsstring \<Rightarrow> jsstring \<Rightarrow> jsstring" where
  \<open>inject_json_ld route m lang canonical s =
     (if starts_with route (lit ''/practice/'') then
        replace_first (string_pattern (lit ''</head>''))
          (lit ''    <script type="application/ld+json">'' @ jsonLd m canonical @
           lit ''</script>\<newline>'' @
           lit ''    <script type="application/ld+json">'' @ breadcrumb m lang canonical @
           lit ''</script>\<newline>'' @
           lit ''</head>'') s
      else s)\<close>

text \<open>Lines 258 to 310: what the handler makes of the cached template once \<open>meta\<close> and
  \<open>canonical\<close> are known.\<close>

definition render_page :: "jsstring \<Rightarrow> jsstring \<Rightarrow> jsstring \<Rightarrow> meta \<Rightarrow> jsstring \<Rightarrow> jsstring" where
  "render_page expertiseTemplate route lang m canonical =
     inject_json_ld route m lang canonical
       (inject_og_image
         (inject_hreflang route
           (inject_meta expertiseTemplate m canonical)))"

text \<open>The handler that \<open>expertiseRoutes.forEach\<close> registers for \<open>route\<close>, with the table and
  the cached template it reads as arguments. When the table has no entry, \<open>meta\<close> is
  \<open>undefined\<close> and \<open>meta.title\<close> throws. The result is the body handed to \<open>res.send\<close>.\<close>

definition expertise_page ::
  "meta_table \<Rightarrow> jsstring \<Rightarrow> jsstring \<Rightarrow> qsval option \<Rightarrow> js_error + jsstring" where
  "expertise_page tbl expertiseTemplate route q =
     (let lang = page_lang q;
          canonical = canonical_url route lang
      in case lookup_meta tbl route lang of
           None \<Rightarrow> Inl TypeError
         | Some m \<Rightarrow> Inr (render_page expertiseTemplate route lang m canonical))"

subsection \<open>The running server\<close>

text \<open>The module-level bindings the handlers read, all \<open>const\<close> and set when the module is
  loaded. A handler gets the server and gives it back with its answer.\<close>

record server =
  transporter :: "transporter option"
  expertiseTemplate :: jsstring

definition startup ::
  "(transport_options \<Rightarrow> transporter) \<Rightarrow> process_env \<Rightarrow> jsstring \<Rightarrow> server" where
  "startup createTransport env expertise_html =
     \<lparr>transporter = make_transporter createTransport env,
      expertiseTemplate = expertise_html\<rparr>"

definition get_page :: "server \<Rightarrow> jsstring \<Rightarrow> qsval option \<Rightarrow> (js_error + jsstring) \<times> server" where
  "get_page srv route q = (expertise_page routeMeta (expertiseTemplate srv) route q, srv)"

definition post_contact ::
  "server \<Rightarrow> process_env \<Rightarrow> jsval \<Rightarrow> (effect list \<times> outcome) \<times> server" where
  "post_contact srv env body = (contact (transporter srv) env body, srv)"

text \<open>A run of page requests, one after the other on the same server.\<close>

fun serve_pages :: "server \<Rightarrow> (jsstring \<times> qsval option) list \<Rightarrow> (js_error + jsstring) list" where
  "serve_pages srv [] = []"
| "serve_pages srv ((route, q) # reqs) =
     (case get_page srv route q of (page, srv') \<Rightarrow> page # serve_pages srv' reqs)"

section \<open>Vocabulary of the properties\<close>

text \<open>The escaping as the specification words it: each unit on its own, the four special
  ones replaced by their entity.\<close>

definition esc_unit :: "16 word \<Rightarrow> jsstring" where
  "esc_unit c =
     (if c = 0x26 then lit ''&amp;''
      else if c = 0x3C then lit ''&lt;''
      else if c = 0x3E then lit ''&gt;''
      else if c = 0x22 then lit ''&quot;''
      else [c])"

text \<open>\<open>const required = { name, phone, caseType }\<close> for a given body.\<close>

definition required_fields :: "jsval \<Rightarrow> (jsstring \<times> jsval) list" where
  "required_fields body =
     [(lit ''name'', destructure body (lit ''name'')),
      (lit ''phone'', destructure body (lit ''phone'')),
      (lit ''caseType'', destructure body (lit ''caseType''))]"

text \<open>A body passes validation when each of the four checks of the handler lets it
  through: nothing missing, nothing too long, the phone and the email well formed, and
  no exception on the way.\<close>

definition validated :: "jsval \<Rightarrow> bool" where
  "validated body \<longleftrightarrow>
     missing_fields (required_fields body) = Inr [] \<and>
     length_stage body limits = Inr None \<and>
     js_test phone_re (destructure body (lit ''phone'')) = Inr True \<and>
     email_invalid (destructure body (lit ''email'')) = Inr False"

definition dispatch_body :: "transporter option \<Rightarrow> process_env \<Rightarrow> jsval \<Rightarrow> effect list \<times> outcome" where
  "dispatch_body tr env body =
     dispatch tr env (destructure body (lit ''name'')) (destructure body (lit ''phone''))
       (destructure body (lit ''caseType'')) (destructure body (lit ''email''))
       (destructure body (lit ''message'')) (destructure body (lit ''lang''))"

text \<open>The mails handed to \<open>sendMail\<close> among the effects of a request.\<close>

definition mails_sent :: "effect list \<Rightarrow> mail list" where
  "mails_sent effs = concat (map (\<lambda>e. case e of SendMail m \<Rightarrow> [m] | _ \<Rightarrow> []) effs)"

text \<open>What the length loop tests for one field, \<open>req.body[field] && String(req.body[field]).length > max\<close>,
  and whether that test can be evaluated without an exception.\<close>

definition too_long :: "jsval \<Rightarrow> jsstring \<Rightarrow> nat \<Rightarrow> bool" where
  "too_long body field max' \<longleftrightarrow>
     (case req_body_index body field of
        Inl e \<Rightarrow> False
      | Inr v \<Rightarrow> js_truthy v \<and> (case js_String v of Inl e \<Rightarrow> False | Inr s \<Rightarrow> length s > max'))"

definition converts :: "jsval \<Rightarrow> jsstring \<Rightarrow> bool" where
  "converts body field \<longleftrightarrow>
     (case req_body_index body field of
        Inl e \<Rightarrow> False
      | Inr v \<Rightarrow> js_truthy v \<longrightarrow> (case js_String v of Inl e \<Rightarrow> False | Inr s \<Rightarrow> True))"

text \<open>A field as the form sends it: a string, or left out, or null.\<close>

definition string_or_absent :: "jsval \<Rightarrow> bool" where
  "string_or_absent v = (case v of None \<Rightarrow> True | Some JNull \<Rightarrow> True | Some (JStr s) \<Rightarrow> True | _ \<Rightarrow> False)"

section \<open>Facts about the helpers\<close>

lemmas eval_defs = contact_def destructure_def js_get_def lit_def is_missing_def js_String_def
  trim_def is_space_def limits_def req_body_index_def js_test_def phone_re_def
  phone_class_def email_invalid_def call_trim_def Let_def email_re_def email_class_def
  dispatch_def build_mail_def nullish_or_empty_def esc_string_def or_default_def

lemma and_then_Inl [simp]: "and_then (Inl e) f = Inl e"
  by (simp add: and_then_def)

lemma and_then_Inr [simp]: "and_then (Inr v) f = f v"
  by (simp add: and_then_def)

lemma and_then_eq_Inr:
  "and_then x f = Inr y \<longleftrightarrow> (\<exists>v. x = Inr v \<and> f v = Inr y)"
  by (cases x) simp_all

lemma replace_all_unit_Nil [simp]: "replace_all_unit c rep [] = []"
  by (simp add: replace_all_unit_def)

lemma replace_all_unit_Cons [simp]:
  "replace_all_unit c rep (x # s) = (if x = c then rep else [x]) @ replace_all_unit c rep s"
  by (simp add: replace_all_unit_def)

lemma replace_all_unit_append [simp]:
  "replace_all_unit c rep (s @ t) = replace_all_unit c rep s @ replace_all_unit c rep t"
  by (simp add: replace_all_unit_def)

lemma esc_string_Nil [simp]: "esc_string [] = []"
  by (simp add: esc_string_def)

text \<open>The four passes in the order of the source amount to one pass: the ampersand goes
  first, so the ampersands of the entities written later are not escaped again.\<close>

lemma esc_string_Cons: "esc_string (c # s) = esc_unit c @ esc_string s"
  by (simp add: esc_string_def esc_unit_def lit_def)

lemma esc_string_units: "esc_string s = concat (map esc_unit s)"
  by (induction s) (simp_all add: esc_string_Cons)

lemma esc_unit_safe:
  "0x3C \<notin> set (esc_unit c) \<and> 0x3E \<notin> set (esc_unit c) \<and> 0x22 \<notin> set (esc_unit c)"
  by (simp add: esc_unit_def lit_def)

lemma esc_string_safe:
  "0x3C \<notin> set (esc_string s) \<and> 0x3E \<notin> set (esc_string s) \<and> 0x22 \<notin> set (esc_string s)"
  using esc_unit_safe by (auto simp: esc_string_units)

lemma esc_JStr [simp]: "esc (Some (JStr s)) = Inr (esc_string s)"
  by (simp add: esc_def js_String_def)

lemma call_trim_eq_Inr: "call_trim v = Inr s \<longleftrightarrow> (\<exists>x. v = Some (JStr x) \<and> s = trim x)"
  by (auto simp: call_trim_def split: option.splits json.splits)

lemma trim_Nil [simp]: "trim [] = []"
  by (simp add: trim_def)

section \<open>The shape of the contact handler\<close>

lemma build_mail_Inr:
  assumes "build_mail env name phone caseType email message lang = Inr m"
  shows "\<exists>n p c e msg.
     name = Some (JStr n) \<and> phone = Some (JStr p) \<and> caseType = Some (JStr c) \<and>
     (if js_truthy email then email = Some (JStr e) else e = []) \<and>
     nullish_or_empty message = Some (JStr msg) \<and>
     m = \<lparr>mail_from = lit ''\"Alon Pardo Website\" <'' @
                    or_default (SMTP_USER env) (lit ''pardooren@gmail.com'') @ lit ''>'',
          mail_to = lit ''pardooren@gmail.com'',
          subject = mail_subject (lang = Some (JStr (lit ''he''))) (esc_string (trim n))
                      (esc_string (trim c)),
          html = mail_html (lang = Some (JStr (lit ''he''))) (esc_string (trim n))
                   (esc_string (trim p)) (esc_string (trim c)) (esc_string (trim e))
                   (replace_all_unit 0x0A (lit ''<br>'') (esc_string (trim msg)))\<rparr>"
  using assms unfolding build_mail_def
  by (cases "js_truthy email")
     (auto simp: and_then_eq_Inr call_trim_eq_Inr Let_def)

lemma contact_validated:
  "validated body \<Longrightarrow> contact tr env body = dispatch_body tr env body"
  by (simp add: contact_def validated_def required_fields_def dispatch_body_def Let_def)

lemma contact_not_validated:
  "\<not> validated body \<Longrightarrow> fst (contact tr env body) = []"
  by (auto simp: contact_def validated_def required_fields_def Let_def
           split: sum.splits option.splits)

lemma dispatch_SendMail:
  assumes "SendMail m \<in> set (fst (dispatch tr env name phone caseType email message lang))"
  shows "tr \<noteq> None \<and> build_mail env name phone caseType email message lang = Inr m"
  using assms
  by (auto simp: dispatch_def split: option.splits sum.splits send_outcome.splits)

lemma contact_SendMail:
  assumes "SendMail m \<in> set (fst (contact tr env body))"
  shows "validated body \<and> tr \<noteq> None \<and>
         build_mail env (destructure body (lit ''name'')) (destructure body (lit ''phone''))
           (destructure body (lit ''caseType'')) (destructure body (lit ''email''))
           (destructure body (lit ''message'')) (destructure body (lit ''lang'')) = Inr m"
proof -
  have v: "validated body"
    using assms contact_not_validated [of body tr env] by (cases "validated body") auto
  with assms have "SendMail m \<in> set (fst (dispatch_body tr env body))"
    by (simp add: contact_validated)
  with v show ?thesis
    using dispatch_SendMail unfolding dispatch_body_def by blast
qed

lemma make_transporter_None:
  "SMTP_PASS env = None \<or> SMTP_PASS env = Some [] \<Longrightarrow> make_transporter ct env = None"
  by (auto simp: make_transporter_def)

lemma mails_sent_dispatch:
  "length (mails_sent (fst (dispatch tr env name phone caseType email message lang))) \<le> 1"
  by (simp add: dispatch_def mails_sent_def split: option.splits sum.splits send_outcome.splits)

lemma missing_fields_filter:
  "\<forall>(k, v) \<in> set kvs. is_missing v \<noteq> Inl TypeError \<Longrightarrow>
   missing_fields kvs = Inr (map fst (filter (\<lambda>(k, v). is_missing v = Inr True) kvs))"
proof (induction kvs)
  case Nil
  then show ?case by simp
next
  case (Cons kv kvs)
  obtain k v where kv: "kv = (k, v)" by (cases kv)
  from Cons.prems kv obtain b where b: "is_missing v = Inr b"
    by (cases "is_missing v") (auto intro: js_error.exhaust)
  from Cons show ?case
    by (simp add: kv b)
qed

section \<open>The shape of the page handler\<close>

lemma expertiseRoutes_table:
  "\<forall>r \<in> set expertiseRoutes. \<exists>entries he en.
      js_get routeMeta r = Some entries \<and>
      js_get entries (lit ''he'') = Some he \<and> js_get entries (lit ''en'') = Some en \<and>
      he \<noteq> en \<and> 0x24 \<notin> set r"
  unfolding expertiseRoutes_def
  by (simp add: routeMeta_def js_get_def lit_def)



lemma page_lang_cases: "page_lang q = lit ''en'' \<or> page_lang q = lit ''he''"
  by (simp add: page_lang_def)





lemma lookup_meta_entries:
  "js_get tbl route = Some entries \<Longrightarrow>
   lookup_meta tbl route lang =
     (case js_get entries lang of Some m \<Rightarrow> Some m | None \<Rightarrow> js_get entries (lit ''he''))"
  by (simp add: lookup_meta_def)

lemma serve_pages_map:
  "serve_pages srv reqs =
     map (\<lambda>(route, q). expertise_page routeMeta (expertiseTemplate srv) route q) reqs"
  by (induction reqs) (auto simp: get_page_def)

lemma expertise_page_lang:
  "page_lang q = page_lang q' \<Longrightarrow>
   expertise_page tbl template route q = expertise_page tbl template route q'"
  by (simp add: expertise_page_def)

section \<open>The two variants of the mail\<close>





section \<open>How far the validation reports what it finds\<close>

text \<open>When each required field that is there converts to a string, the answer to a body
  with a missing field is the 400 that lists every missing field, in the order \<open>name\<close>,
  \<open>phone\<close>, \<open>caseType\<close>.\<close>

lemma missing_fields_reported:
  assumes "\<forall>(k, v) \<in> set (required_fields body). is_missing v \<noteq> Inl TypeError"
    and "\<exists>(k, v) \<in> set (required_fields body). is_missing v = Inr True"
  shows "contact tr env body =
           ([], Responded \<lparr>status = 400, ok = False,
                  error = Some (lit ''Missing required fields''),
                  fields' = Some (map fst (filter (\<lambda>(k, v). is_missing v = Inr True)
                                            (required_fields body)))\<rparr>)"
proof -
  have m: "missing_fields (required_fields body) =
      Inr (map fst (filter (\<lambda>(k, v). is_missing v = Inr True) (required_fields body)))"
    using assms(1) by (rule missing_fields_filter)
  from assms(2) have "filter (\<lambda>(k, v). is_missing v = Inr True) (required_fields body) \<noteq> []"
    by (auto simp: filter_empty_conv)
  with m show ?thesis
    using m unfolding contact_def Let_def required_fields_def [symmetric]
    by simp
qed

text \<open>When each of the five limited fields converts, the answer to a body that has passed
  the required-field check and has a field over its limit is the 400 whose text names the
  first such field and its limit.\<close>

lemma length_stage_find:
  "\<forall>(f, mx) \<in> set lims. converts body f \<Longrightarrow>
   length_stage body lims =
     (case find (\<lambda>(f, mx). too_long body f mx) lims of
        None \<Rightarrow> Inr None
      | Some (f, mx) \<Rightarrow> Inr (Some (too_long_response f mx)))"
proof (induction lims)
  case Nil
  then show ?case by simp
next
  case (Cons fm lims)
  obtain f mx where fm: "fm = (f, mx)" by (cases fm)
  from Cons.prems fm have c: "converts body f" by simp
  from Cons have ih: "length_stage body lims =
     (case find (\<lambda>(f, mx). too_long body f mx) lims of
        None \<Rightarrow> Inr None
      | Some (f, mx) \<Rightarrow> Inr (Some (too_long_response f mx)))"
    by simp
  from c show ?case
    unfolding fm
    by (auto simp: ih converts_def too_long_def split: sum.splits)
qed

lemma too_long_reported:
  assumes "missing_fields (required_fields body) = Inr []"
    and "\<forall>(f, mx) \<in> set limits. converts body f"
    and "\<exists>(f, mx) \<in> set limits. too_long body f mx"
  shows "\<exists>f mx. (f, mx) \<in> set limits \<and> too_long body f mx \<and>
     contact tr env body =
       ([], Responded \<lparr>status = 400, ok = False,
              error = Some (f @ lit '' exceeds maximum length of '' @ dec mx),
              fields' = None\<rparr>)"
proof -
  from assms(3) obtain f mx where
    f: "find (\<lambda>(f, mx). too_long body f mx) limits = Some (f, mx)"
    by (cases "find (\<lambda>(f, mx). too_long body f mx) limits") (auto simp: find_None_iff)
  then have "(f, mx) \<in> set limits" "too_long body f mx"
    by (auto simp: find_Some_iff in_set_conv_nth)
  moreover have "length_stage body limits = Inr (Some (too_long_response f mx))"
    using length_stage_find [OF assms(2)] f by simp
  then have "contact tr env body = ([], Responded (too_long_response f mx))"
    using assms(1) unfolding contact_def Let_def required_fields_def [symmetric]
    by simp
  ultimately show ?thesis
    unfolding too_long_response_def by blast
qed


section \<open>Bodies whose fields are strings\<close>

text \<open>When each of the five fields is a string, absent or null, every path through the
  handler ends in a response: the exceptions need a field of another type.\<close>

lemma string_or_absent_cases:
  "string_or_absent v \<longleftrightarrow> v = None \<or> v = Some JNull \<or> (\<exists>s. v = Some (JStr s))"
  by (auto simp: string_or_absent_def split: option.splits json.splits)

lemma is_missing_string:
  "string_or_absent v \<Longrightarrow> is_missing v = Inr (case v of Some (JStr s) \<Rightarrow> trim s = [] | _ \<Rightarrow> True)"
  by (auto simp: string_or_absent_cases is_missing_def js_String_def)

lemma req_body_index_destructure:
  "destructure body k \<noteq> None \<Longrightarrow> req_body_index body f = Inr (destructure body f)"
  by (auto simp: destructure_def req_body_index_def split: option.splits json.splits)

lemma js_String_string:
  "string_or_absent v \<Longrightarrow> \<exists>s. js_String v = Inr s"
  by (auto simp: string_or_absent_cases js_String_def)

lemma length_stage_strings:
  assumes "destructure body k \<noteq> None"
    and "\<forall>(f, mx) \<in> set lims. string_or_absent (destructure body f)"
  shows "\<exists>r. length_stage body lims = Inr r"
  using assms(2)
proof (induction lims)
  case Nil
  then show ?case by simp
next
  case (Cons fm lims)
  obtain f mx where fm: "fm = (f, mx)" by (cases fm)
  from Cons.prems fm obtain s where s: "js_String (destructure body f) = Inr s"
    using js_String_string by fastforce
  from Cons obtain r where r: "length_stage body lims = Inr r" by auto
  show ?case
    by (simp add: fm req_body_index_destructure [OF assms(1)] s r)
qed

lemma contact_responds_on_strings:
  assumes "\<forall>k \<in> {lit ''name'', lit ''phone'', lit ''caseType'', lit ''email'', lit ''message''}.
             string_or_absent (destructure body k)"
  shows "\<exists>r. snd (contact tr env body) = Responded r"
proof -
  let ?name = "destructure body (lit ''name'')"
  let ?phone = "destructure body (lit ''phone'')"
  let ?caseType = "destructure body (lit ''caseType'')"
  let ?email = "destructure body (lit ''email'')"
  let ?message = "destructure body (lit ''message'')"
  from assms have t: "string_or_absent ?name" "string_or_absent ?phone"
    "string_or_absent ?caseType" "string_or_absent ?email" "string_or_absent ?message"
    by simp_all
  obtain ms where ms: "missing_fields (required_fields body) = Inr ms"
    by (simp add: required_fields_def is_missing_string t)
  show ?thesis
  proof (cases "ms = []")
    case False
    with ms show ?thesis
      unfolding contact_def Let_def required_fields_def [symmetric] by simp
  next
    case True
    with ms have none: "missing_fields (required_fields body) = Inr []" by simp
    then obtain n p c where npc: "?name = Some (JStr n)" "?phone = Some (JStr p)"
      "?caseType = Some (JStr c)"
      using t(1,2,3)
      by (auto simp: required_fields_def is_missing_string string_or_absent_cases
               split: if_splits)
    have "\<forall>(f, mx) \<in> set limits. string_or_absent (destructure body f)"
      using t by (simp add: limits_def)
    with npc(1) obtain r where r: "length_stage body limits = Inr r"
      using length_stage_strings [of body "lit ''name''" limits] by auto
    have ph: "js_test phone_re ?phone = Inr (phone_re p)"
      by (simp add: npc js_test_def js_String_def)
    have "\<exists>b. email_invalid ?email = Inr b"
      using t(4)
      by (auto simp: string_or_absent_cases email_invalid_def call_trim_def js_test_def
            js_String_def)
    then obtain b where em: "email_invalid ?email = Inr b" ..
    have "\<exists>m. build_mail env ?name ?phone ?caseType ?email ?message
         (destructure body (lit ''lang'')) = Inr m"
      using t(4,5)
      by (auto simp: npc build_mail_def call_trim_def nullish_or_empty_def Let_def
            string_or_absent_cases)
    then obtain m where bm: "build_mail env ?name ?phone ?caseType ?email ?message
         (destructure body (lit ''lang'')) = Inr m" ..
    show ?thesis
      unfolding contact_def Let_def required_fields_def [symmetric]
      by (simp add: none r ph em dispatch_def bm
            split: option.splits send_outcome.splits)
  qed
qed


section \<open>The matchers and the regular expressions they stand for\<close>

text \<open>Each matcher accepts exactly the strings of the shape its regular expression
  describes, and \<open>search\<close> returns the leftmost position with a match.\<close>

lemma email_class_dot: "email_class 0x2E"
  by (simp add: email_class_def is_space_def)

lemma email_class_at: "\<not> email_class 0x40"
  by (simp add: email_class_def)

lemma email_re_iff:
  "email_re s \<longleftrightarrow>
     (\<exists>a b c. s = a @ 0x40 # b @ 0x2E # c \<and> a \<noteq> [] \<and> b \<noteq> [] \<and> c \<noteq> [] \<and>
        list_all email_class a \<and> list_all email_class b \<and> list_all email_class c)"
proof
  assume r: "email_re s"
  let ?a = "takeWhile email_class s"
  from r have a: "?a \<noteq> []" by (simp add: email_re_def)
  from r obtain t where t: "dropWhile email_class s = 0x40 # t" "list_all email_class t"
    "0x2E \<in> set (butlast (tl t))"
    by (auto simp: email_re_def split: list.splits)
  from t(3) obtain p q where pq: "butlast (tl t) = p @ 0x2E # q"
    by (auto simp: in_set_conv_decomp)
  then have nn: "tl t \<noteq> []" by auto
  then have tn: "t \<noteq> []" by auto
  have "t = hd t # tl t" using tn by simp
  also have "tl t = butlast (tl t) @ [last (tl t)]" using nn by simp
  finally have t_eq: "t = (hd t # p) @ 0x2E # (q @ [last (tl t)])"
    by (simp add: pq)
  have "s = ?a @ dropWhile email_class s" by simp
  with t(1) t_eq have s: "s = ?a @ 0x40 # (hd t # p) @ 0x2E # (q @ [last (tl t)])"
    by metis
  have la: "list_all email_class ?a"
    by (auto simp: list_all_iff dest: set_takeWhileD)
  from t(2) t_eq have "list_all email_class ((hd t # p) @ 0x2E # (q @ [last (tl t)]))"
    by metis
  then have "list_all email_class (hd t # p)" "list_all email_class (q @ [last (tl t)])"
    by simp_all
  with s a la show "\<exists>a b c. s = a @ 0x40 # b @ 0x2E # c \<and> a \<noteq> [] \<and> b \<noteq> [] \<and> c \<noteq> [] \<and>
        list_all email_class a \<and> list_all email_class b \<and> list_all email_class c"
    by blast
next
  assume "\<exists>a b c. s = a @ 0x40 # b @ 0x2E # c \<and> a \<noteq> [] \<and> b \<noteq> [] \<and> c \<noteq> [] \<and>
        list_all email_class a \<and> list_all email_class b \<and> list_all email_class c"
  then obtain a b c where s: "s = a @ 0x40 # b @ 0x2E # c" and n: "a \<noteq> []" "b \<noteq> []" "c \<noteq> []"
    and l: "list_all email_class a" "list_all email_class b" "list_all email_class c"
    by blast
  from l(1) have tw: "takeWhile email_class s = a"
    unfolding s by (simp add: list_all_iff email_class_at)
  from l(1) have dw: "dropWhile email_class s = 0x40 # b @ 0x2E # c"
    unfolding s by (simp add: list_all_iff email_class_at)
  from n(2) obtain x b' where b: "b = x # b'" by (cases b) auto
  from n(3) have bl: "butlast (b' @ 0x2E # c) = b' @ 0x2E # butlast c"
    by (simp add: butlast_append)
  show "email_re s"
    unfolding email_re_def tw dw
    using n(1) l(2,3) by (simp add: b bl email_class_dot)
qed

lemma tag_pattern_Some:
  "tag_pattern l s = Some n \<longleftrightarrow>
     (\<exists>attrs rest. s = l @ attrs @ 0x3E # rest \<and> 0x3E \<notin> set attrs \<and>
        n = length l + length attrs + 1)"
proof
  assume m: "tag_pattern l s = Some n"
  let ?rest = "drop (length l) s"
  let ?attrs = "takeWhile (\<lambda>c. c \<noteq> 0x3E) ?rest"
  from m have p: "take (length l) s = l" and lt: "length ?attrs < length ?rest"
    and n: "n = length l + length ?attrs + 1"
    by (auto simp: tag_pattern_def starts_with_def Let_def split: if_splits)
  from lt have "dropWhile (\<lambda>c. c \<noteq> 0x3E) ?rest \<noteq> []"
    by (metis append.right_neutral nat_less_le takeWhile_dropWhile_id)
  then obtain r where d: "dropWhile (\<lambda>c. c \<noteq> 0x3E) ?rest = 0x3E # r"
    by (metis (mono_tags, lifting) hd_dropWhile list.collapse)
  have "s = take (length l) s @ ?rest" by simp
  also have "?rest = ?attrs @ dropWhile (\<lambda>c. c \<noteq> 0x3E) ?rest" by simp
  finally have "s = l @ ?attrs @ 0x3E # r" using p d by metis
  moreover have "0x3E \<notin> set ?attrs" by (auto dest: set_takeWhileD)
  ultimately show "\<exists>attrs rest. s = l @ attrs @ 0x3E # rest \<and> 0x3E \<notin> set attrs \<and>
        n = length l + length attrs + 1"
    using n by blast
next
  assume "\<exists>attrs rest. s = l @ attrs @ 0x3E # rest \<and> 0x3E \<notin> set attrs \<and>
        n = length l + length attrs + 1"
  then obtain attrs rest where s: "s = l @ attrs @ 0x3E # rest" and a: "0x3E \<notin> set attrs"
    and n: "n = length l + length attrs + 1"
    by blast
  from a have "takeWhile (\<lambda>c. c \<noteq> 0x3E) (attrs @ 0x3E # rest) = attrs"
    by (subst takeWhile_append2) auto
  then show "tag_pattern l s = Some n"
    by (simp add: tag_pattern_def starts_with_def s n)
qed

lemma search_leftmost:
  "search m s = Some (i, n) \<longleftrightarrow>
     i \<le> length s \<and> m (drop i s) = Some n \<and> (\<forall>j < i. m (drop j s) = None)"
proof (induction s arbitrary: i)
  case Nil
  then show ?case by (auto split: option.splits)
next
  case (Cons c s)
  show ?case
  proof (cases "m (c # s)")
    case (Some k)
    then show ?thesis
      by (cases i) auto
  next
    case None
    show ?thesis
    proof (cases i)
      case 0
      with None show ?thesis by (auto split: option.splits)
    next
      case (Suc i')
      have "(\<forall>j < Suc i'. m (drop j (c # s)) = None) \<longleftrightarrow> (\<forall>j < i'. m (drop j s) = None)"
        using None by (auto simp: less_Suc_eq_0_disj)
      with None Suc Cons.IH [of i'] show ?thesis
        by (auto split: option.splits)
    qed
  qed
qed

lemma starts_with_iff: "starts_with s p \<longleftrightarrow> (\<exists>rest. s = p @ rest)"
  unfolding starts_with_def
  by (metis append_eq_conv_conj)

lemma starts_with_append: "starts_with (p @ rest) p"
  by (simp add: starts_with_def)

lemma title_pattern_Some:
  \<open>title_pattern s = Some n \<longleftrightarrow>
     (\<exists>attrs inner rest.
        s = lit ''<title'' @ attrs @ 0x3E # inner @ lit ''</title>'' @ rest \<and>
        0x3E \<notin> set attrs \<and> 0x3C \<notin> set inner \<and>
        n = length attrs + length inner + 15)\<close>
proof
  assume m: "title_pattern s = Some n"
  then obtain k where k: "tag_pattern (lit ''<title'') s = Some k"
    by (auto simp: title_pattern_def split: option.splits)
  then obtain attrs r where s: "s = lit ''<title'' @ attrs @ 0x3E # r"
    and a: "0x3E \<notin> set attrs" and kn: "k = length (lit ''<title'') + length attrs + 1"
    unfolding tag_pattern_Some by blast
  have dr: "drop k s = r"
    unfolding s kn by simp
  let ?inner = "takeWhile (\<lambda>c. c \<noteq> 0x3C) r"
  from m k dr have st: "starts_with (drop (length ?inner) r) (lit ''</title>'')"
    and n: "n = k + length ?inner + 8"
    by (auto simp: title_pattern_def Let_def split: if_splits)
  from st obtain rest where "drop (length ?inner) r = lit ''</title>'' @ rest"
    unfolding starts_with_iff by blast
  moreover have "r = take (length ?inner) r @ drop (length ?inner) r" by simp
  moreover have "take (length ?inner) r = ?inner"
    by (metis append_eq_conv_conj takeWhile_dropWhile_id)
  ultimately have "r = ?inner @ lit ''</title>'' @ rest" by metis
  with s have "s = lit ''<title'' @ attrs @ 0x3E # ?inner @ lit ''</title>'' @ rest"
    by simp
  moreover have "0x3C \<notin> set ?inner" by (auto dest: set_takeWhileD)
  moreover have "n = length attrs + length ?inner + 15"
    using n kn by (simp add: lit_def)
  ultimately show \<open>\<exists>attrs inner rest.
        s = lit ''<title'' @ attrs @ 0x3E # inner @ lit ''</title>'' @ rest \<and>
        0x3E \<notin> set attrs \<and> 0x3C \<notin> set inner \<and>
        n = length attrs + length inner + 15\<close>
    using a by blast
next
  assume \<open>\<exists>attrs inner rest.
        s = lit ''<title'' @ attrs @ 0x3E # inner @ lit ''</title>'' @ rest \<and>
        0x3E \<notin> set attrs \<and> 0x3C \<notin> set inner \<and>
        n = length attrs + length inner + 15\<close>
  then obtain attrs inner rest where
    s: \<open>s = lit ''<title'' @ attrs @ 0x3E # inner @ lit ''</title>'' @ rest\<close>
    and a: "0x3E \<notin> set attrs" and i: "0x3C \<notin> set inner"
    and n: "n = length attrs + length inner + 15"
    by blast
  have k: "tag_pattern (lit ''<title'') s = Some (length (lit ''<title'') + length attrs + 1)"
    unfolding tag_pattern_Some using s a by blast
  have dr: "drop (length (lit ''<title'') + length attrs + 1) s = inner @ lit ''</title>'' @ rest"
    unfolding s by simp
  from i have tw: "takeWhile (\<lambda>c. c \<noteq> 0x3C) (inner @ lit ''</title>'' @ rest) = inner"
    by (subst takeWhile_append2) (auto simp: lit_def)
  have "title_pattern s = Some (length (lit ''<title'') + length attrs + 1 + length inner + 8)"
    unfolding title_pattern_def k option.case Let_def dr tw
    by (simp add: starts_with_append)
  then show "title_pattern s = Some n"
    using n by (simp add: lit_def)
qed

section \<open>The claims\<close>

text \<open>
  C1. Whenever the contact handler sends a mail, the five fields of the body that are put
  into its HTML are strings (\<open>email\<close> may also be falsy and \<open>message\<close> absent or null, both
  then standing for the empty string), and the HTML is the template filled with, for each
  field, the trimmed value passed through the escape helper; only the message has its
  newlines turned into \<open><br>\<close>, and that after the escaping. The escape helper replaces
  each ampersand, \<open><\<close>, \<open>>\<close> and double quote by its entity, unit by unit, so no \<open><\<close> or \<open>>\<close>
  of a field value reaches the HTML.
\<close>

theorem mail_fields_escaped:
  assumes "SendMail m \<in> set (fst (contact tr env body))"
  shows "(\<exists>n p c e msg.
      destructure body (lit ''name'') = Some (JStr n) \<and>
      destructure body (lit ''phone'') = Some (JStr p) \<and>
      destructure body (lit ''caseType'') = Some (JStr c) \<and>
      (if js_truthy (destructure body (lit ''email''))
       then destructure body (lit ''email'') = Some (JStr e) else e = []) \<and>
      nullish_or_empty (destructure body (lit ''message'')) = Some (JStr msg) \<and>
      html m =
        mail_html (destructure body (lit ''lang'') = Some (JStr (lit ''he'')))
          (esc_string (trim n)) (esc_string (trim p)) (esc_string (trim c))
          (esc_string (trim e))
          (replace_all_unit 0x0A (lit ''<br>'') (esc_string (trim msg))))
    \<and> (\<forall>s. esc_string s = concat (map esc_unit s))
    \<and> (\<forall>s. 0x3C \<notin> set (esc_string s) \<and> 0x3E \<notin> set (esc_string s))"
proof -
  from contact_SendMail [OF assms] build_mail_Inr
  obtain n p c e msg where
    "destructure body (lit ''name'') = Some (JStr n)"
    "destructure body (lit ''phone'') = Some (JStr p)"
    "destructure body (lit ''caseType'') = Some (JStr c)"
    "if js_truthy (destructure body (lit ''email''))
     then destructure body (lit ''email'') = Some (JStr e) else e = []"
    "nullish_or_empty (destructure body (lit ''message'')) = Some (JStr msg)"
    "html m =
        mail_html (destructure body (lit ''lang'') = Some (JStr (lit ''he'')))
          (esc_string (trim n)) (esc_string (trim p)) (esc_string (trim c))
          (esc_string (trim e))
          (replace_all_unit 0x0A (lit ''<br>'') (esc_string (trim msg)))"
    by (metis (no_types, lifting) mail.select_convs(4))
  then show ?thesis
    using esc_string_units esc_string_safe by blast
qed

theorem mail_fields_escaped_witness:
  \<open>SendMail
     \<lparr>mail_from = lit ''"Alon Pardo Website" <pardooren@gmail.com>'',
      mail_to = lit ''pardooren@gmail.com'',
      subject = mail_subject True (lit ''Dana'') (lit ''A&amp;B''),
      html = mail_html True (lit ''Dana'') (lit ''050-1234567'') (lit ''A&amp;B'')
               (lit ''d@example.com'') (lit ''Hello<br>&lt;World&gt;'')\<rparr>
   \<in> set (fst (contact (Some (\<lambda>m. Delivered)) \<lparr>SMTP_USER = None, SMTP_PASS = None\<rparr>
       (Some (JObj [(lit ''name'', JStr (lit ''Dana'')),
                    (lit ''phone'', JStr (lit ''050-1234567'')),
                    (lit ''caseType'', JStr (lit ''A&B'')),
                    (lit ''email'', JStr (lit ''d@example.com'')),
                    (lit ''message'', JStr (lit ''Hello\<newline><World>'')),
                    (lit ''lang'', JStr (lit ''he''))]))))
   \<and> 0x3C \<notin> set (esc_string (lit ''<b>''))\<close>
proof -
  have h: \<open>SendMail
     \<lparr>mail_from = lit ''"Alon Pardo Website" <pardooren@gmail.com>'',
      mail_to = lit ''pardooren@gmail.com'',
      subject = mail_subject True (lit ''Dana'') (lit ''A&amp;B''),
      html = mail_html True (lit ''Dana'') (lit ''050-1234567'') (lit ''A&amp;B'')
               (lit ''d@example.com'') (lit ''Hello<br>&lt;World&gt;'')\<rparr>
   \<in> set (fst (contact (Some (\<lambda>m. Delivered)) \<lparr>SMTP_USER = None, SMTP_PASS = None\<rparr>
       (Some (JObj [(lit ''name'', JStr (lit ''Dana'')),
                    (lit ''phone'', JStr (lit ''050-1234567'')),
                    (lit ''caseType'', JStr (lit ''A&B'')),
                    (lit ''email'', JStr (lit ''d@example.com'')),
                    (lit ''message'', JStr (lit ''Hello\<newline><World>'')),
                    (lit ''lang'', JStr (lit ''he''))]))))\<close>
    by (simp add: eval_defs)
  from mail_fields_escaped [OF h] show ?thesis
    using h by blast
qed




text \<open>
  C3. A body whose \<open>name\<close> is null and whose \<open>phone\<close> is the object \<open>{"toString": 0}\<close>: the
  filter over the required fields finds \<open>name\<close> missing, then calls \<open>String\<close> on the object,
  which throws, and the handler ends with an uncaught TypeError instead of the 400 that
  lists \<open>name\<close>.
\<close>

theorem contact_missing_then_object_throws:
  "contact tr env
     (Some (JObj [(lit ''name'', JNull),
                  (lit ''phone'', JObj [(lit ''toString'', JNum (lit ''0''))]),
                  (lit ''caseType'', JStr (lit ''x''))]))
   = ([], Uncaught TypeError)"
  by (simp add: eval_defs)

text \<open>
  C4. A body whose \<open>email\<close> is the number 5, the required fields being in order: the email
  check calls \<open>email.trim()\<close>, a number has no such method, and the handler ends with an
  uncaught TypeError instead of a response, whatever the transporter.
\<close>

theorem contact_number_email_throws:
  "contact tr env
     (Some (JObj [(lit ''name'', JStr (lit ''a'')), (lit ''phone'', JStr (lit ''1'')),
                  (lit ''caseType'', JStr (lit ''x'')), (lit ''email'', JNum (lit ''5''))]))
   = ([], Uncaught TypeError)"
  by (simp add: eval_defs)



text \<open>
  C6. The transporter is made once, at startup, from the \<open>SMTP_PASS\<close> of that moment, and
  there is none when the variable is absent or empty. On such a server every body that
  passes validation is answered 503 with \<open>{ok: false, error: "Email not configured"}\<close>
  and no mail is sent, whatever the environment holds when the request arrives.
\<close>

theorem not_configured_503:
  assumes "SMTP_PASS env0 = None \<or> SMTP_PASS env0 = Some []"
    and "validated body"
  shows "post_contact (startup createTransport env0 template) env1 body =
           (([ConsoleWarn (lit ''SMTP_PASS not configured '' @ [0x2013] @ lit '' email skipped'')],
             Responded \<lparr>status = 503, ok = False, error = Some (lit ''Email not configured''),
                        fields' = None\<rparr>),
            startup createTransport env0 template)
         \<and> mails_sent (fst (fst (post_contact (startup createTransport env0 template) env1 body)))
             = []"
  using assms
  by (simp add: post_contact_def startup_def make_transporter_None contact_validated
        dispatch_body_def dispatch_def error_response_def mails_sent_def)

theorem not_configured_503_witness:
  "(SMTP_PASS \<lparr>SMTP_USER = Some (lit ''u''), SMTP_PASS = Some []\<rparr> = None
      \<or> SMTP_PASS \<lparr>SMTP_USER = Some (lit ''u''), SMTP_PASS = Some []\<rparr> = Some [])
   \<and> validated (Some (JObj [(lit ''name'', JStr (lit ''Dana'')),
                          (lit ''phone'', JStr (lit ''050-1234567'')),
                          (lit ''caseType'', JStr (lit ''Traffic''))]))
   \<and> fst (post_contact
            (startup (\<lambda>opts m. Delivered) \<lparr>SMTP_USER = Some (lit ''u''), SMTP_PASS = Some []\<rparr> [])
            \<lparr>SMTP_USER = Some (lit ''u''), SMTP_PASS = Some (lit ''secret'')\<rparr>
            (Some (JObj [(lit ''name'', JStr (lit ''Dana'')),
                         (lit ''phone'', JStr (lit ''050-1234567'')),
                         (lit ''caseType'', JStr (lit ''Traffic''))])))
       = ([ConsoleWarn (lit ''SMTP_PASS not configured '' @ [0x2013] @ lit '' email skipped'')],
          Responded \<lparr>status = 503, ok = False, error = Some (lit ''Email not configured''),
                     fields' = None\<rparr>)"
proof -
  have p: "SMTP_PASS \<lparr>SMTP_USER = Some (lit ''u''), SMTP_PASS = Some []\<rparr> = None
      \<or> SMTP_PASS \<lparr>SMTP_USER = Some (lit ''u''), SMTP_PASS = Some []\<rparr> = Some []"
    by simp
  have v: "validated (Some (JObj [(lit ''name'', JStr (lit ''Dana'')),
                          (lit ''phone'', JStr (lit ''050-1234567'')),
                          (lit ''caseType'', JStr (lit ''Traffic''))]))"
    by (simp add: validated_def required_fields_def eval_defs)
  from not_configured_503 [OF p v, of "\<lambda>opts m. Delivered" "[]"
      "\<lparr>SMTP_USER = Some (lit ''u''), SMTP_PASS = Some (lit ''secret'')\<rparr>"]
  show ?thesis using p v by simp
qed

text \<open>
  C7. A request hands at most one mail to \<open>sendMail\<close>, and only a body that has passed
  the four checks gets that far. A body that fails a check has no effect at all: no mail,
  nothing logged. When \<open>sendMail\<close> rejects, the handler logs the error and answers 500;
  the one attempt is the only one.
\<close>

theorem mail_sent_at_most_once:
  "length (mails_sent (fst (contact tr env body))) \<le> 1
   \<and> (mails_sent (fst (contact tr env body)) \<noteq> [] \<longrightarrow> validated body)
   \<and> (\<not> validated body \<longrightarrow> fst (contact tr env body) = [])
   \<and> (\<forall>sendMail m msg.
        validated body \<and> tr = Some sendMail \<and>
        build_mail env (destructure body (lit ''name'')) (destructure body (lit ''phone''))
           (destructure body (lit ''caseType'')) (destructure body (lit ''email''))
           (destructure body (lit ''message'')) (destructure body (lit ''lang'')) = Inr m \<and>
        sendMail m = Rejected msg \<longrightarrow>
        contact tr env body =
          ([SendMail m, ConsoleError (lit ''Email send error:'') msg],
           Responded \<lparr>status = 500, ok = False, error = Some (lit ''Failed to send email''),
                      fields' = None\<rparr>))"
proof (cases "validated body")
  case True
  then show ?thesis
    using mails_sent_dispatch
    by (auto simp: contact_validated dispatch_body_def dispatch_def error_response_def)
next
  case False
  then show ?thesis
    by (simp add: contact_not_validated mails_sent_def)
qed

theorem mail_sent_at_most_once_witness:
  \<open>\<not> validated (Some (JObj [(lit ''name'', JStr (lit ''Dana'')),
                            (lit ''phone'', JStr (lit ''abc'')),
                            (lit ''caseType'', JStr (lit ''Traffic''))]))
   \<and> fst (contact (Some (\<lambda>m. Delivered)) \<lparr>SMTP_USER = None, SMTP_PASS = None\<rparr>
            (Some (JObj [(lit ''name'', JStr (lit ''Dana'')),
                         (lit ''phone'', JStr (lit ''abc'')),
                         (lit ''caseType'', JStr (lit ''Traffic''))]))) = []
   \<and> validated (Some (JObj [(lit ''name'', JStr (lit ''Dana'')),
                            (lit ''phone'', JStr (lit ''050-1234567'')),
                            (lit ''caseType'', JStr (lit ''Traffic''))]))
   \<and> contact (Some (\<lambda>m. Rejected (lit ''timeout''))) \<lparr>SMTP_USER = None, SMTP_PASS = None\<rparr>
         (Some (JObj [(lit ''name'', JStr (lit ''Dana'')),
                      (lit ''phone'', JStr (lit ''050-1234567'')),
                      (lit ''caseType'', JStr (lit ''Traffic''))]))
      = ([SendMail
           \<lparr>mail_from = lit ''"Alon Pardo Website" <pardooren@gmail.com>'',
            mail_to = lit ''pardooren@gmail.com'',
            subject = mail_subject False (lit ''Dana'') (lit ''Traffic''),
            html = mail_html False (lit ''Dana'') (lit ''050-1234567'') (lit ''Traffic'') [] []\<rparr>,
          ConsoleError (lit ''Email send error:'') (lit ''timeout'')],
         Responded \<lparr>status = 500, ok = False, error = Some (lit ''Failed to send email''),
                    fields' = None\<rparr>)\<close>
proof -
  have a: \<open>\<not> validated (Some (JObj [(lit ''name'', JStr (lit ''Dana'')),
                            (lit ''phone'', JStr (lit ''abc'')),
                            (lit ''caseType'', JStr (lit ''Traffic''))]))\<close>
    by (simp add: validated_def required_fields_def eval_defs)
  have b: \<open>validated (Some (JObj [(lit ''name'', JStr (lit ''Dana'')),
                            (lit ''phone'', JStr (lit ''050-1234567'')),
                            (lit ''caseType'', JStr (lit ''Traffic''))]))\<close>
    by (simp add: validated_def required_fields_def eval_defs)
  have c: \<open>build_mail \<lparr>SMTP_USER = None, SMTP_PASS = None\<rparr>
        (destructure (Some (JObj [(lit ''name'', JStr (lit ''Dana'')),
                            (lit ''phone'', JStr (lit ''050-1234567'')),
                            (lit ''caseType'', JStr (lit ''Traffic''))])) (lit ''name''))
        (destructure (Some (JObj [(lit ''name'', JStr (lit ''Dana'')),
                            (lit ''phone'', JStr (lit ''050-1234567'')),
                            (lit ''caseType'', JStr (lit ''Traffic''))])) (lit ''phone''))
        (destructure (Some (JObj [(lit ''name'', JStr (lit ''Dana'')),
                            (lit ''phone'', JStr (lit ''050-1234567'')),
                            (lit ''caseType'', JStr (lit ''Traffic''))])) (lit ''caseType''))
        (destructure (Some (JObj [(lit ''name'', JStr (lit ''Dana'')),
                            (lit ''phone'', JStr (lit ''050-1234567'')),
                            (lit ''caseType'', JStr (lit ''Traffic''))])) (lit ''email''))
        (destructure (Some (JObj [(lit ''name'', JStr (lit ''Dana'')),
                            (lit ''phone'', JStr (lit ''050-1234567'')),
                            (lit ''caseType'', JStr (lit ''Traffic''))])) (lit ''message''))
        (destructure (Some (JObj [(lit ''name'', JStr (lit ''Dana'')),
                            (lit ''phone'', JStr (lit ''050-1234567'')),
                            (lit ''caseType'', JStr (lit ''Traffic''))])) (lit ''lang''))
      = Inr \<lparr>mail_from = lit ''"Alon Pardo Website" <pardooren@gmail.com>'',
            mail_to = lit ''pardooren@gmail.com'',
            subject = mail_subject False (lit ''Dana'') (lit ''Traffic''),
            html = mail_html False (lit ''Dana'') (lit ''050-1234567'') (lit ''Traffic'') [] []\<rparr>\<close>
    by (simp add: eval_defs)
  from mail_sent_at_most_once
         [of "Some (\<lambda>m. Delivered)" "\<lparr>SMTP_USER = None, SMTP_PASS = None\<rparr>"
             \<open>Some (JObj [(lit ''name'', JStr (lit ''Dana'')),
                            (lit ''phone'', JStr (lit ''abc'')),
                            (lit ''caseType'', JStr (lit ''Traffic''))])\<close>]
       mail_sent_at_most_once
         [of "Some (\<lambda>m. Rejected (lit ''timeout''))" "\<lparr>SMTP_USER = None, SMTP_PASS = None\<rparr>"
             \<open>Some (JObj [(lit ''name'', JStr (lit ''Dana'')),
                            (lit ''phone'', JStr (lit ''050-1234567'')),
                            (lit ''caseType'', JStr (lit ''Traffic''))])\<close>]
  show ?thesis using a b c by blast
qed

text \<open>
  C8. A page request leaves the server as it was, so in a run of requests each answer is
  the rendering of the cached template for the route and the query of that request alone.
  Two requests of a run for the same route whose queries select the same language get
  identical pages: nothing injected by one rendering is seen by a later one.
\<close>

theorem pages_repeatable:
  assumes "i < length reqs" and "j < length reqs"
    and "fst (reqs ! i) = fst (reqs ! j)"
    and "page_lang (snd (reqs ! i)) = page_lang (snd (reqs ! j))"
  shows "serve_pages srv reqs ! i = serve_pages srv reqs ! j
    \<and> serve_pages srv reqs ! i =
        expertise_page routeMeta (expertiseTemplate srv) (fst (reqs ! i)) (snd (reqs ! i))
    \<and> snd (get_page srv (fst (reqs ! i)) (snd (reqs ! i))) = srv"
proof -
  have n: "serve_pages srv reqs ! k =
        expertise_page routeMeta (expertiseTemplate srv) (fst (reqs ! k)) (snd (reqs ! k))"
    if "k < length reqs" for k
    using that by (simp add: serve_pages_map case_prod_beta)
  have "serve_pages srv reqs ! i = serve_pages srv reqs ! j"
    using n [OF assms(1)] n [OF assms(2)] assms(3) expertise_page_lang [OF assms(4)]
    by simp
  then show ?thesis
    using n [OF assms(1)] by (simp add: get_page_def)
qed

theorem pages_repeatable_witness:
  \<open>(0::nat) < length [(lit ''/privacy'', None), (lit ''/terms'', Some (QStr (lit ''en''))),
                      (lit ''/privacy'', Some (QStr (lit ''fr'')))]
   \<and> (2::nat) < length [(lit ''/privacy'', None), (lit ''/terms'', Some (QStr (lit ''en''))),
                      (lit ''/privacy'', Some (QStr (lit ''fr'')))]
   \<and> serve_pages \<lparr>transporter = None, expertiseTemplate = lit ''<title>x</title>''\<rparr>
        [(lit ''/privacy'', None), (lit ''/terms'', Some (QStr (lit ''en''))),
         (lit ''/privacy'', Some (QStr (lit ''fr'')))] ! 0
     = serve_pages \<lparr>transporter = None, expertiseTemplate = lit ''<title>x</title>''\<rparr>
        [(lit ''/privacy'', None), (lit ''/terms'', Some (QStr (lit ''en''))),
         (lit ''/privacy'', Some (QStr (lit ''fr'')))] ! 2\<close>
proof -
  have i: \<open>(0::nat) < length [(lit ''/privacy'', None), (lit ''/terms'', Some (QStr (lit ''en''))),
                      (lit ''/privacy'', Some (QStr (lit ''fr'')))]\<close>
    by simp
  have j: \<open>(2::nat) < length [(lit ''/privacy'', None), (lit ''/terms'', Some (QStr (lit ''en''))),
                      (lit ''/privacy'', Some (QStr (lit ''fr'')))]\<close>
    by simp
  have r: \<open>fst ([(lit ''/privacy'', None), (lit ''/terms'', Some (QStr (lit ''en''))),
                      (lit ''/privacy'', Some (QStr (lit ''fr'')))] ! 0)
         = fst ([(lit ''/privacy'', None), (lit ''/terms'', Some (QStr (lit ''en''))),
                      (lit ''/privacy'', Some (QStr (lit ''fr'')))] ! 2)\<close>
    by simp
  have l: \<open>page_lang (snd ([(lit ''/privacy'', None), (lit ''/terms'', Some (QStr (lit ''en''))),
                      (lit ''/privacy'', Some (QStr (lit ''fr'')))] ! 0))
         = page_lang (snd ([(lit ''/privacy'', None), (lit ''/terms'', Some (QStr (lit ''en''))),
                      (lit ''/privacy'', Some (QStr (lit ''fr'')))] ! 2))\<close>
    by (simp add: page_lang_def lit_def)
  from pages_repeatable [OF i j r l]
  show ?thesis using i j by blast
qed

text \<open>
  C9. A body that passes the required-field check, whose \<open>email\<close> is the object
  \<open>{"toString": 0}\<close> and whose \<open>message\<close> has 5001 units: the length loop reaches \<open>email\<close>
  before \<open>message\<close>, calls \<open>String\<close> on the object, which throws, and the handler ends with
  an uncaught TypeError instead of the 400 for \<open>message\<close>.
\<close>

theorem contact_long_message_after_object_throws:
  "contact tr env
     (Some (JObj [(lit ''name'', JStr (lit ''a'')), (lit ''phone'', JStr (lit ''1'')),
                  (lit ''caseType'', JStr (lit ''x'')),
                  (lit ''email'', JObj [(lit ''toString'', JNum (lit ''0''))]),
                  (lit ''message'', JStr (replicate 5001 0x61))]))
   = ([], Uncaught TypeError)"
  by (simp add: eval_defs)

text \<open>
  C10. The handler is registered for ten distinct paths: the five \<open>/practice/...-lawyer\<close>
  pages, \<open>/privacy\<close>, \<open>/terms\<close>, \<open>/cookies\<close>, \<open>/disclaimer\<close> and \<open>/accessibility-statement\<close>.
  Each of them has a Hebrew and an English entry in the table, so for a registered route
  the lookup never falls back to Hebrew and never comes back empty: the handler always
  produces a page.
\<close>

theorem registered_routes:
  \<open>length expertiseRoutes = 10 \<and> distinct expertiseRoutes
   \<and> set expertiseRoutes =
       {lit ''/practice/criminal-lawyer'', lit ''/practice/traffic-lawyer'',
        lit ''/practice/administrative-lawyer'', lit ''/practice/employment-lawyer'',
        lit ''/practice/accessibility-lawyer'', lit ''/privacy'', lit ''/terms'',
        lit ''/cookies'', lit ''/disclaimer'', lit ''/accessibility-statement''}
   \<and> (\<forall>route \<in> set expertiseRoutes.
        (\<exists>entries he en.
           js_get routeMeta route = Some entries \<and>
           js_get entries (lit ''he'') = Some he \<and> js_get entries (lit ''en'') = Some en \<and>
           (\<forall>q. js_get entries (page_lang q) \<noteq> None \<and>
                lookup_meta routeMeta route (page_lang q) = js_get entries (page_lang q)))
        \<and> (\<forall>template q. \<exists>page. expertise_page routeMeta template route q = Inr page))\<close>
proof -
  have shape: \<open>length expertiseRoutes = 10 \<and> distinct expertiseRoutes
   \<and> set expertiseRoutes =
       {lit ''/practice/criminal-lawyer'', lit ''/practice/traffic-lawyer'',
        lit ''/practice/administrative-lawyer'', lit ''/practice/employment-lawyer'',
        lit ''/practice/accessibility-lawyer'', lit ''/privacy'', lit ''/terms'',
        lit ''/cookies'', lit ''/disclaimer'', lit ''/accessibility-statement''}\<close>
    by (simp add: expertiseRoutes_def lit_def)
  have entry: \<open>(\<exists>entries he en.
           js_get routeMeta route = Some entries \<and>
           js_get entries (lit ''he'') = Some he \<and> js_get entries (lit ''en'') = Some en \<and>
           (\<forall>q. js_get entries (page_lang q) \<noteq> None \<and>
                lookup_meta routeMeta route (page_lang q) = js_get entries (page_lang q)))
        \<and> (\<forall>template q. \<exists>page. expertise_page routeMeta template route q = Inr page)\<close>
    if "route \<in> set expertiseRoutes" for route
  proof -
    from that expertiseRoutes_table obtain entries he en where e:
      "js_get routeMeta route = Some entries" "js_get entries (lit ''he'') = Some he"
      "js_get entries (lit ''en'') = Some en"
      by blast
    have l: "js_get entries (page_lang q) \<noteq> None \<and>
             lookup_meta routeMeta route (page_lang q) = js_get entries (page_lang q)" for q
      using page_lang_cases [of q] e(2,3)
      by (auto simp: lookup_meta_entries [OF e(1)])
    have "\<exists>page. expertise_page routeMeta template route q = Inr page" for template q
      using l [of q] by (auto simp: expertise_page_def Let_def)
    with e l show ?thesis by blast
  qed
  from shape entry show ?thesis by blast
qed

theorem registered_routes_witness:
  \<open>lit ''/disclaimer'' \<in> set expertiseRoutes
   \<and> (\<exists>page. expertise_page routeMeta [] (lit ''/disclaimer'') None = Inr page)
   \<and> (\<exists>entries he en.
        js_get routeMeta (lit ''/disclaimer'') = Some entries \<and>
        js_get entries (lit ''he'') = Some he \<and> js_get entries (lit ''en'') = Some en)\<close>
proof -
  have h: \<open>lit ''/disclaimer'' \<in> set expertiseRoutes\<close>
    by (simp add: expertiseRoutes_def lit_def)
  from registered_routes h show ?thesis
    by blast
qed


end
